theory Spec2Isabelle
  imports Main "HOL-Library.Sublist"
begin

section \<open>Cloudflare DNS CLI (cf-dns.py): a shallow embedding\<close>

text \<open>
  The program is one Python file. Its values are strings from the command line and JSON
  values decoded from HTTP responses; its effects are HTTP requests, reads from standard
  input and process exits. The embedding makes each of them explicit.

  Conventions.
  \<^item> A Python \<open>str\<close> is a \<open>string\<close>: a \<open>char\<close> is the Unicode code point of the same
    number, so the text of the model is the text whose code points lie below 256; any
    other text has no counterpart here. \<open>str.strip\<close>, \<open>str.lower\<close> and \<open>int\<close> are
    Python's on that text. \<open>str.upper\<close> sends U+00B5 and U+00FF out of this range: the
    statements that go through \<open>upper\<close> are about ASCII text.
  \<^item> A decoded JSON value is a \<open>json\<close>. Python's \<open>None\<close> and JSON \<open>null\<close> are both
    \<open>JNull\<close>. A dict is an association list in insertion order, read with \<open>map_of\<close>.
    JSON numbers with a fraction or an exponent are not part of the model.
  \<^item> An optional command-line argument is a \<open>string option\<close> (\<open>None\<close> when the flag
    is omitted).
  \<^item> Text written to stdout and stderr is not part of the state, and both streams are
    taken to accept every character written to them; where printing can raise for
    another reason, the exception is modelled.
\<close>

subsection \<open>Python values\<close>

datatype json =
    JNull
  | JBool bool
  | JInt int
  | JStr string
  | JArr "json list"
  | JObj "(string \<times> json) list"

text \<open>
  An f-string is kept as its pieces: literal text and replacement fields. A replacement
  field stands for \<open>str()\<close> of its value.
\<close>

datatype piece = Lit string | Val json

type_synonym fstring = "piece list"

subsection \<open>Process exits and uncaught exceptions\<close>

text \<open>The messages the program prints before it exits, one constructor per call site.\<close>

datatype message =
    ErrorReadingTokenFile        \<comment> \<open>\<open>Error reading token file: {e}\<close>\<close>
  | NoToken                      \<comment> \<open>\<open>No token. Set CF_API_TOKEN or use --token-file ...\<close>\<close>
  | CloudflareApiError           \<comment> \<open>\<open>Cloudflare API error (HTTP {status})\<close>, with the JSON body\<close>
  | HttpStatus                   \<comment> \<open>\<open>HTTP {code}: {body[:4000]}\<close>\<close>
  | NetworkError                 \<comment> \<open>\<open>Network error: {e}\<close>\<close>
  | ZoneNotFound string          \<comment> \<open>\<open>Zone not found or unauthorized: {zone_name}\<close>\<close>
  | ProvideIdOrNameType          \<comment> \<open>\<open>Provide --id OR (--name and --type)\<close>\<close>
  | NoRecordsMatch string string \<comment> \<open>\<open>No records match: type={rtype} name={fqdn}\<close>\<close>
  | MultipleRecordsMatch string string
                                 \<comment> \<open>\<open>Multiple records match type={rtype} name={fqdn}. Use --id to specify.\<close>\<close>
  | NoRecordSelected             \<comment> \<open>\<open>No record selected.\<close>\<close>
  | InvalidRecordId              \<comment> \<open>\<open>Invalid record ID.\<close>\<close>
  | Aborted                      \<comment> \<open>\<open>Aborted.\<close>\<close>

text \<open>
  \<open>Exit m c\<close>: message \<open>m\<close> went to stderr and the process ended through
  \<open>sys.exit(c)\<close>. \<open>Uncaught n\<close>: a Python exception of class \<open>n\<close> reached the top level.
\<close>

datatype error = Exit message nat | Uncaught string

fun exit_code :: "error \<Rightarrow> nat" where
  "exit_code (Exit m c) = c"
| "exit_code (Uncaught n) = 1"

text \<open>\<open>die(msg, code=1)\<close>: print and exit.\<close>

definition die :: "message \<Rightarrow> nat \<Rightarrow> error + 'a" where
  "die msg code = Inl (Exit msg code)"

subsection \<open>Strings\<close>

text \<open>
  \<open>c.isspace()\<close>: the characters \<open>str.strip()\<close> removes. Below 256 these are the
  code points 9 to 13, 28 to 32, U+0085 and U+00A0.
\<close>

definition is_space :: "char \<Rightarrow> bool" where
  "is_space c =
     (let n = (of_char c :: nat)
      in (9 \<le> n \<and> n \<le> 13) \<or> (28 \<le> n \<and> n \<le> 32) \<or> n = 133 \<or> n = 160)"

definition strip :: "string \<Rightarrow> string" where
  "strip s = rev (dropWhile is_space (rev (dropWhile is_space s)))"

text \<open>
  \<open>str.lower()\<close>: the letters A to Z, and U+00C0 to U+00DE without the multiplication
  sign U+00D7, move up by 32; nothing else below 256 changes.
\<close>

definition lower_char :: "char \<Rightarrow> char" where
  "lower_char c =
     (let n = (of_char c :: nat)
      in if (65 \<le> n \<and> n \<le> 90) \<or> (192 \<le> n \<and> n \<le> 222 \<and> n \<noteq> 215) then char_of (n + 32)
         else c)"

definition lower :: "string \<Rightarrow> string" where
  "lower s = map lower_char s"

text \<open>
  \<open>str.upper()\<close>: the letters a to z, and U+00E0 to U+00FE without the division sign
  U+00F7, move down by 32; U+00DF becomes \<open>SS\<close>. The upper-case forms of U+00B5 and
  U+00FF are U+039C and U+0178, which are not characters of the model: the two are left
  in place here, and \<open>upper\<close> is Python's on every text without them, ASCII text in
  particular.
\<close>

definition upper_char :: "char \<Rightarrow> string" where
  "upper_char c =
     (let n = (of_char c :: nat)
      in if (97 \<le> n \<and> n \<le> 122) \<or> (224 \<le> n \<and> n \<le> 254 \<and> n \<noteq> 247) then [char_of (n - 32)]
         else if n = 223 then ''SS''
         else [c])"

definition upper :: "string \<Rightarrow> string" where
  "upper s = concat (map upper_char s)"

definition is_ascii :: "string \<Rightarrow> bool" where
  "is_ascii s = list_all (\<lambda>c. (of_char c :: nat) < 128) s"

text \<open>\<open>s.endswith(t)\<close>.\<close>

definition endswith :: "string \<Rightarrow> string \<Rightarrow> bool" where
  "endswith s t = suffix t s"

subsection \<open>Operations on decoded JSON\<close>

text \<open>Truth value of a Python object, as \<open>if x\<close>, \<open>not x\<close>, \<open>x or y\<close> and \<open>bool(x)\<close> read it.\<close>

fun truthy :: "json \<Rightarrow> bool" where
  "truthy JNull = False"
| "truthy (JBool b) = b"
| "truthy (JInt n) = (n \<noteq> 0)"
| "truthy (JStr s) = (s \<noteq> [])"
| "truthy (JArr xs) = (xs \<noteq> [])"
| "truthy (JObj kvs) = (kvs \<noteq> [])"

text \<open>\<open>x or y\<close>.\<close>

definition py_or :: "json \<Rightarrow> json \<Rightarrow> json" where
  "py_or x y = (if truthy x then x else y)"

text \<open>\<open>x.get(k, d)\<close>: only a dict has the method.\<close>

fun py_get :: "json \<Rightarrow> string \<Rightarrow> json \<Rightarrow> error + json" where
  "py_get (JObj kvs) k d = Inr (case map_of kvs k of None \<Rightarrow> d | Some v \<Rightarrow> v)"
| "py_get x k d = Inl (Uncaught ''AttributeError'')"

text \<open>\<open>x[k]\<close> with a string key.\<close>

fun py_item :: "json \<Rightarrow> string \<Rightarrow> error + json" where
  "py_item (JObj kvs) k = (case map_of kvs k of None \<Rightarrow> Inl (Uncaught ''KeyError'') | Some v \<Rightarrow> Inr v)"
| "py_item x k = Inl (Uncaught ''TypeError'')"

text \<open>\<open>x[0]\<close>. The keys of a decoded JSON object are strings, so \<open>0\<close> is never a key.\<close>

fun py_first :: "json \<Rightarrow> error + json" where
  "py_first (JArr []) = Inl (Uncaught ''IndexError'')"
| "py_first (JArr (x # xs)) = Inr x"
| "py_first (JStr []) = Inl (Uncaught ''IndexError'')"
| "py_first (JStr (c # cs)) = Inr (JStr [c])"
| "py_first (JObj kvs) = Inl (Uncaught ''KeyError'')"
| "py_first x = Inl (Uncaught ''TypeError'')"

text \<open>\<open>len(x)\<close>.\<close>

fun py_len :: "json \<Rightarrow> error + nat" where
  "py_len (JArr xs) = Inr (length xs)"
| "py_len (JStr s) = Inr (length s)"
| "py_len (JObj kvs) = Inr (length kvs)"
| "py_len x = Inl (Uncaught ''TypeError'')"

text \<open>The items a \<open>for\<close> loop, a generator or \<open>list.extend\<close> draws from \<open>x\<close>.\<close>

fun py_iter :: "json \<Rightarrow> error + json list" where
  "py_iter (JArr xs) = Inr xs"
| "py_iter (JStr s) = Inr (map (\<lambda>c. JStr [c]) s)"
| "py_iter (JObj kvs) = Inr (map (\<lambda>kv. JStr (fst kv)) kvs)"
| "py_iter x = Inl (Uncaught ''TypeError'')"

text \<open>
  \<open>int(x)\<close>. For a string: surrounding whitespace is dropped, one sign is allowed, and
  the digits may be grouped by single underscores. The whitespace of \<open>int\<close> is not that
  of \<open>strip\<close>: it is the code points 9 to 13 and 32, and U+0085 and U+00A0, but not 28
  to 31. A string of more than 4300 digits is refused, the interpreter's default limit.
\<close>

definition is_int_space :: "char \<Rightarrow> bool" where
  "is_int_space c =
     (let n = (of_char c :: nat) in (9 \<le> n \<and> n \<le> 13) \<or> n = 32 \<or> n = 133 \<or> n = 160)"

definition int_strip :: "string \<Rightarrow> string" where
  "int_strip s = rev (dropWhile is_int_space (rev (dropWhile is_int_space s)))"

definition max_str_digits :: nat where
  "max_str_digits = 4300"

definition is_digit :: "char \<Rightarrow> bool" where
  "is_digit c = (let n = (of_char c :: nat) in 48 \<le> n \<and> n \<le> 57)"

definition digit_val :: "char \<Rightarrow> nat" where
  "digit_val c = of_char c - 48"

fun digits :: "nat \<Rightarrow> string \<Rightarrow> nat option" where
  "digits acc [] = None"
| "digits acc [c] = (if is_digit c then Some (10 * acc + digit_val c) else None)"
| "digits acc (c # d # cs) =
     (if is_digit c then
        (if d = CHR ''_'' then (if cs = [] then None else digits (10 * acc + digit_val c) cs)
         else digits (10 * acc + digit_val c) (d # cs))
      else None)"

definition int_of_str :: "string \<Rightarrow> int option" where
  "int_of_str s =
     (if length (filter is_digit s) > max_str_digits then None
      else
        (case int_strip s of
           [] \<Rightarrow> None
         | c # cs \<Rightarrow>
             if c = CHR ''-'' then map_option (\<lambda>n. - int n) (digits 0 cs)
             else if c = CHR ''+'' then map_option int (digits 0 cs)
             else map_option int (digits 0 (c # cs))))"

fun py_int :: "json \<Rightarrow> error + int" where
  "py_int (JInt n) = Inr n"
| "py_int (JBool b) = Inr (if b then 1 else 0)"
| "py_int (JStr s) = (case int_of_str s of None \<Rightarrow> Inl (Uncaught ''ValueError'') | Some n \<Rightarrow> Inr n)"
| "py_int x = Inl (Uncaught ''TypeError'')"

text \<open>
  An optional string under \<open>if x:\<close>: \<open>None\<close> and the empty string both fail the
  test; otherwise the string is at hand.
\<close>

fun given :: "string option \<Rightarrow> string option" where
  "given None = None"
| "given (Some s) = (if s = [] then None else Some s)"


subsection \<open>Pure helpers of the program\<close>

text \<open>
  \<^verbatim>\<open>def normalize_name(zone, name):
    return name if (name == zone or name.endswith("." + zone)) else f"{name}.{zone}"\<close>
\<close>

definition normalize_name :: "string \<Rightarrow> string \<Rightarrow> string" where
  "normalize_name zone name =
     (if name = zone \<or> endswith name (''.'' @ zone) then name else name @ ''.'' @ zone)"

text \<open>
  \<^verbatim>\<open>def build_payload(name, rtype, content, ttl=None, proxied=None):
    p = {"type": rtype, "name": name, "content": content}
    if ttl is not None: p["ttl"] = int(ttl)
    if rtype in ("A","AAAA","CNAME") and proxied is not None: p["proxied"] = bool(proxied)
    return p\<close>
  The result is the dict, as the list of its items in insertion order.
\<close>

definition build_payload :: "json \<Rightarrow> json \<Rightarrow> json \<Rightarrow> json \<Rightarrow> json \<Rightarrow> error + json" where
  "build_payload name rtype content ttl proxied =
     (let p = [(''type'', rtype), (''name'', name), (''content'', content)] in
      case (if ttl \<noteq> JNull
            then (case py_int ttl of Inl e \<Rightarrow> Inl e | Inr n \<Rightarrow> Inr (p @ [(''ttl'', JInt n)]))
            else Inr p) of
        Inl e \<Rightarrow> Inl e
      | Inr p1 \<Rightarrow>
          Inr (JObj (if rtype \<in> set [JStr ''A'', JStr ''AAAA'', JStr ''CNAME''] \<and> proxied \<noteq> JNull
                     then p1 @ [(''proxied'', JBool (truthy proxied))] else p1)))"

text \<open>
  \<^verbatim>\<open>def read_token(token_file):
    t = os.environ.get("CF_API_TOKEN")
    if t: return t.strip()
    if token_file:
        try:
            with open(token_file, "r", encoding="utf-8") as f:
                return f.readline().strip()
        except Exception as e:
            die(f"Error reading token file: {e}", 2)
    die("No token. Set CF_API_TOKEN or use --token-file /path/to/token.txt", 2)\<close>
  The environment is the value of \<open>CF_API_TOKEN\<close> (\<open>None\<close> when it is unset); the
  file system gives, for a path, what \<open>readline()\<close> returns on the opened file, or
  \<open>None\<close> when opening or reading raises.
\<close>

definition read_token :: "string option \<Rightarrow> (string \<Rightarrow> string option) \<Rightarrow> string option \<Rightarrow> error + string" where
  "read_token env files token_file =
     (case given env of
        Some t \<Rightarrow> Inr (strip t)
      | None \<Rightarrow>
          (case given token_file of
             Some path \<Rightarrow>
               (case files path of
                  Some line \<Rightarrow> Inr (strip line)
                | None \<Rightarrow> die ErrorReadingTokenFile 2)
           | None \<Rightarrow> die NoToken 2))"

subsection \<open>The world: HTTP, standard input\<close>

datatype http_method = GET | POST | PUT | DELETE

text \<open>
  A request as \<open>http_json\<close> hands it to \<open>urllib\<close>: the URL before the query string is
  appended, the query parameters (\<open>[]\<close> when none are passed), the payload before
  \<open>json.dumps\<close>, and the headers.
\<close>

record request =
  req_method :: http_method
  req_url :: fstring
  req_params :: "(string \<times> json) list"
  req_data :: "json option"
  req_headers :: "(string \<times> string) list"

text \<open>What \<open>urlopen\<close> and the reading of the body can do.\<close>

datatype reply =
    Response nat json          \<comment> \<open>a response with this status whose body \<open>json.loads\<close> decodes\<close>
  | Garbled nat                \<comment> \<open>a response whose body is not JSON\<close>
  | HTTPError nat "json option" \<comment> \<open>\<open>urllib.error.HTTPError\<close>; its body decoded, if it is JSON\<close>
  | URLError                   \<comment> \<open>\<open>urllib.error.URLError\<close>\<close>
  | Raised string              \<comment> \<open>any other exception, by class name\<close>

text \<open>
  The server answers a request knowing every request made before it. \<open>requests\<close> is
  the log of requests made so far, \<open>stdin\<close> the lines not yet read, \<open>prompts\<close> the
  prompts \<open>input()\<close> has shown.
\<close>

record world =
  server :: "request list \<Rightarrow> request \<Rightarrow> reply"
  requests :: "request list"
  stdin_isatty :: bool
  stdin :: "string list"
  prompts :: "string list"

definition version :: string where
  "version = ''1.2.0''"

definition API_BASE :: string where
  "API_BASE = ''https://api.cloudflare.com/client/v4''"

definition headers :: "string \<Rightarrow> (string \<times> string) list" where
  "headers token =
     [(''Authorization'', ''Bearer '' @ token),
      (''Content-Type'', ''application/json''),
      (''Accept'', ''application/json''),
      (''User-Agent'', ''cf-dns-cli-stdlib/'' @ version)]"

text \<open>
  \<^verbatim>\<open>def http_json(method, url, token, payload=None, params=None):
    ...
    try:
        with urllib.request.urlopen(req, timeout=30) as resp:
            body = resp.read().decode("utf-8", "replace")
            js = json.loads(body)
            if not js.get("success", False):
                die(f"Cloudflare API error (HTTP {resp.status})", data=js)
            return js
    except urllib.error.HTTPError as e:
        body = e.read().decode("utf-8", "replace")
        try: js = json.loads(body)
        except Exception: die(f"HTTP {e.code}: {body[:4000]}")
        die(f"Cloudflare API error (HTTP {e.code})", data=js)
    except urllib.error.URLError as e:
        die(f"Network error: {e}")\<close>
\<close>

definition make_request ::
  "http_method \<Rightarrow> fstring \<Rightarrow> string \<Rightarrow> json option \<Rightarrow> (string \<times> json) list \<Rightarrow> request" where
  "make_request method url token payload params =
     \<lparr>req_method = method, req_url = url, req_params = params,
      req_data = payload, req_headers = headers token\<rparr>"

definition http_json ::
  "world \<Rightarrow> http_method \<Rightarrow> fstring \<Rightarrow> string \<Rightarrow> json option \<Rightarrow> (string \<times> json) list
     \<Rightarrow> (error + json) \<times> world" where
  "http_json w method url token payload params =
     (let req = make_request method url token payload params
      in ((case server w (requests w) req of
             Response status js \<Rightarrow>
               (case py_get js ''success'' (JBool False) of
                  Inl e \<Rightarrow> Inl e
                | Inr ok \<Rightarrow> if \<not> truthy ok then die CloudflareApiError 1 else Inr js)
           | Garbled status \<Rightarrow> Inl (Uncaught ''JSONDecodeError'')
           | HTTPError code None \<Rightarrow> die HttpStatus 1
           | HTTPError code (Some js) \<Rightarrow> die CloudflareApiError 1
           | URLError \<Rightarrow> die NetworkError 1
           | Raised n \<Rightarrow> Inl (Uncaught n)),
          w\<lparr>requests := requests w @ [req]\<rparr>))"

text \<open>\<open>input(prompt)\<close>: shows the prompt, reads one line; \<open>EOFError\<close> at end of input.\<close>

definition py_input :: "world \<Rightarrow> string \<Rightarrow> (error + string) \<times> world" where
  "py_input w prompt =
     (case stdin w of
        [] \<Rightarrow> (Inl (Uncaught ''EOFError''), w\<lparr>prompts := prompts w @ [prompt]\<rparr>)
      | l # ls \<Rightarrow> (Inr l, w\<lparr>stdin := ls, prompts := prompts w @ [prompt]\<rparr>))"

subsection \<open>Zone resolver\<close>

text \<open>
  \<^verbatim>\<open>def zone_id(token, zone_name, base=API_BASE):
    js = http_json("GET", f"{base}/zones", token, params={"name": zone_name})
    res = js.get("result") or []
    if not res: die(f"Zone not found or unauthorized: {zone_name}", 3)
    return res[0]["id"]\<close>
\<close>

definition zone_id :: "world \<Rightarrow> string \<Rightarrow> string \<Rightarrow> string \<Rightarrow> (error + json) \<times> world" where
  "zone_id w token zone_name base =
     (case http_json w GET [Val (JStr base), Lit ''/zones''] token None [(''name'', JStr zone_name)] of
        (Inl e, w1) \<Rightarrow> (Inl e, w1)
      | (Inr js, w1) \<Rightarrow>
          (case py_get js ''result'' JNull of
             Inl e \<Rightarrow> (Inl e, w1)
           | Inr r \<Rightarrow>
               (let res = py_or r (JArr []) in
                if \<not> truthy res then (die (ZoneNotFound zone_name) 3, w1)
                else (case py_first res of
                        Inl e \<Rightarrow> (Inl e, w1)
                      | Inr z \<Rightarrow> (py_item z ''id'', w1)))))"

subsection \<open>Record lister\<close>

text \<open>
  \<^verbatim>\<open>def paginate_records(token, zid, rtype=None, base=API_BASE):
    page, per = 1, 100
    out = []
    while True:
        params = {"page": page, "per_page": per}
        if rtype: params["type"] = rtype
        js = http_json("GET", f"{base}/zones/{zid}/dns_records", token, params=params)
        out.extend(js.get("result") or [])
        info = js.get("result_info") or {}
        if page >= int(info.get("total_pages", 1)): break
        page += 1
    return out\<close>
  The loop ends only when the server lets it: a run that never returns is \<open>None\<close>.
\<close>

partial_function (option) paginate_loop ::
  "world \<Rightarrow> string \<Rightarrow> json \<Rightarrow> string option \<Rightarrow> string \<Rightarrow> int \<Rightarrow> int \<Rightarrow> json list
     \<Rightarrow> ((error + json list) \<times> world) option" where
  "paginate_loop w token zid rtype base page per out =
     (let params = [(''page'', JInt page), (''per_page'', JInt per)]
                   @ (case given rtype of None \<Rightarrow> [] | Some t \<Rightarrow> [(''type'', JStr t)])
      in case http_json w GET [Val (JStr base), Lit ''/zones/'', Val zid, Lit ''/dns_records'']
                token None params of
           (Inl e, w1) \<Rightarrow> Some (Inl e, w1)
         | (Inr js, w1) \<Rightarrow>
             (case py_get js ''result'' JNull of
                Inl e \<Rightarrow> Some (Inl e, w1)
              | Inr r \<Rightarrow>
                  (case py_iter (py_or r (JArr [])) of
                     Inl e \<Rightarrow> Some (Inl e, w1)
                   | Inr items \<Rightarrow>
                       (case py_get js ''result_info'' JNull of
                          Inl e \<Rightarrow> Some (Inl e, w1)
                        | Inr i \<Rightarrow>
                            (case py_get (py_or i (JObj [])) ''total_pages'' (JInt 1) of
                               Inl e \<Rightarrow> Some (Inl e, w1)
                             | Inr t \<Rightarrow>
                                 (case py_int t of
                                    Inl e \<Rightarrow> Some (Inl e, w1)
                                  | Inr last_page \<Rightarrow>
                                      if page \<ge> last_page then Some (Inr (out @ items), w1)
                                      else paginate_loop w1 token zid rtype base (page + 1) per
                                             (out @ items)))))))"

definition paginate_records ::
  "world \<Rightarrow> string \<Rightarrow> json \<Rightarrow> string option \<Rightarrow> string \<Rightarrow> ((error + json list) \<times> world) option" where
  "paginate_records w token zid rtype base = paginate_loop w token zid rtype base 1 100 []"

subsection \<open>Rendering\<close>

text \<open>
  \<^verbatim>\<open>def render_table(records):
    print("id\ttype\tname\tcontent\tttl\tproxied")
    for r in records:
        print(f"{r.get('id','')}\t{r.get('type','')}\t...\t{r.get('proxied','')}")\<close>
  The rows go to stdout; what remains is whether the loop gets through. The six
  lookups of a row are on the same \<open>r\<close>: they all succeed or the first one raises.
\<close>

fun for_each :: "('a \<Rightarrow> error + unit) \<Rightarrow> 'a list \<Rightarrow> error + unit" where
  "for_each f [] = Inr ()"
| "for_each f (x # xs) = (case f x of Inl e \<Rightarrow> Inl e | Inr u \<Rightarrow> for_each f xs)"

definition record_row :: "json \<Rightarrow> error + unit" where
  "record_row r = (case py_get r ''id'' (JStr []) of Inl e \<Rightarrow> Inl e | Inr v \<Rightarrow> Inr ())"

definition render_table :: "json \<Rightarrow> error + unit" where
  "render_table records =
     (case py_iter records of Inl e \<Rightarrow> Inl e | Inr rs \<Rightarrow> for_each record_row rs)"

subsection \<open>The list command\<close>

text \<open>
  \<open>str(v)\<close> for a decoded JSON value: a string is itself. What Python writes for
  \<open>None\<close>, booleans, integers, lists and dicts is not spelled out: \<open>str_of\<close> stands for
  it, a parameter of the list command.
\<close>

fun py_str :: "(json \<Rightarrow> string) \<Rightarrow> json \<Rightarrow> string" where
  "py_str str_of (JStr s) = s"
| "py_str str_of v = str_of v"

text \<open>\<open>str(r.get("name","")).lower()\<close>.\<close>

definition shown_name :: "(json \<Rightarrow> string) \<Rightarrow> json \<Rightarrow> error + string" where
  "shown_name str_of r =
     (case py_get r ''name'' (JStr []) of
        Inl e \<Rightarrow> Inl e
      | Inr v \<Rightarrow> Inr (lower (py_str str_of v)))"

text \<open>\<open>[r for r in recs if needle in str(r.get("name","")).lower()]\<close>.\<close>

fun name_filter :: "(json \<Rightarrow> string) \<Rightarrow> string \<Rightarrow> json list \<Rightarrow> error + json list" where
  "name_filter str_of needle [] = Inr []"
| "name_filter str_of needle (r # rs) =
     (case shown_name str_of r of
        Inl e \<Rightarrow> Inl e
      | Inr text \<Rightarrow>
          (case name_filter str_of needle rs of
             Inl e \<Rightarrow> Inl e
           | Inr kept \<Rightarrow> Inr (if sublist needle text then r # kept else kept)))"

text \<open>
  \<^verbatim>\<open>def cmd_list(token, zone, rtype, name_substr, as_json, base):
    zid = zone_id(token, zone, base)
    recs = paginate_records(token, zid, rtype, base)
    if name_substr:
        needle = name_substr.lower()
        recs = [r for r in recs if needle in str(r.get("name","")).lower()]
    if as_json: print(json.dumps(recs, indent=2))
    else: render_table(recs)\<close>
  The value of a run that gets through is the list of records it prints.
\<close>

definition cmd_list ::
  "(json \<Rightarrow> string) \<Rightarrow> world \<Rightarrow> string \<Rightarrow> string \<Rightarrow> string option \<Rightarrow> string option \<Rightarrow> bool \<Rightarrow> string
     \<Rightarrow> ((error + json list) \<times> world) option" where
  "cmd_list str_of w token zone rtype name_substr as_json base =
     (case zone_id w token zone base of
        (Inl e, w1) \<Rightarrow> Some (Inl e, w1)
      | (Inr zid, w1) \<Rightarrow>
          (case paginate_records w1 token zid rtype base of
             None \<Rightarrow> None
           | Some (Inl e, w2) \<Rightarrow> Some (Inl e, w2)
           | Some (Inr recs, w2) \<Rightarrow>
               (case (case given name_substr of
                        None \<Rightarrow> Inr recs
                      | Some s \<Rightarrow> name_filter str_of (lower s) recs) of
                  Inl e \<Rightarrow> Some (Inl e, w2)
                | Inr recs' \<Rightarrow>
                    if as_json then Some (Inr recs', w2)
                    else (case render_table (JArr recs') of
                            Inl e \<Rightarrow> Some (Inl e, w2)
                          | Inr u \<Rightarrow> Some (Inr recs', w2)))))"

subsection \<open>Record resolver\<close>

text \<open>\<open>next((m for m in matches if m.get("id")==choice), None)\<close>, on the items of \<open>matches\<close>.\<close>

fun first_with_id :: "string \<Rightarrow> json list \<Rightarrow> error + json" where
  "first_with_id choice [] = Inr JNull"
| "first_with_id choice (m # ms) =
     (case py_get m ''id'' JNull of
        Inl e \<Rightarrow> Inl e
      | Inr i \<Rightarrow> if i = JStr choice then Inr m else first_with_id choice ms)"

text \<open>
  \<^verbatim>\<open>def find_record(token, zid, rid, name, rtype, zone_name, base=API_BASE):
    if rid:
        js = http_json("GET", f"{base}/zones/{zid}/dns_records/{rid}", token)
        return rid, js["result"]
    if not name or not rtype:
        die("Provide --id OR (--name and --type)", 2)
    fqdn = normalize_name(zone_name, name) if zone_name else name
    js = http_json("GET", f"{base}/zones/{zid}/dns_records", token,
                   params={"type": rtype, "name": fqdn})
    matches = js.get("result") or []
    if not matches: die(f"No records match: type={rtype} name={fqdn}", 3)
    if len(matches) == 1:
        r = matches[0]; return r["id"], r
    if not sys.stdin.isatty():
        die(f"Multiple records match type={rtype} name={fqdn}. Use --id to specify.", 3)
    print("Multiple records found:\n")
    render_table(matches)
    choice = input("\nEnter record ID to proceed (blank to cancel): ").strip()
    if not choice: print("No record selected.", file=sys.stderr); sys.exit(0)
    sel = next((m for m in matches if m.get("id")==choice), None)
    if not sel: die("Invalid record ID.", 2)
    return choice, sel\<close>
\<close>

definition choose_prompt :: string where
  "choose_prompt = CHR 0x0A # ''Enter record ID to proceed (blank to cancel): ''"

definition find_record ::
  "world \<Rightarrow> string \<Rightarrow> json \<Rightarrow> string option \<Rightarrow> string option \<Rightarrow> string option \<Rightarrow> string \<Rightarrow> string
     \<Rightarrow> (error + json \<times> json) \<times> world" where
  "find_record w token zid rid name rtype zone_name base =
     (case given rid of
        Some rid' \<Rightarrow>
          (case http_json w GET
                  [Val (JStr base), Lit ''/zones/'', Val zid, Lit ''/dns_records/'', Val (JStr rid')]
                  token None [] of
             (Inl e, w1) \<Rightarrow> (Inl e, w1)
           | (Inr js, w1) \<Rightarrow>
               (case py_item js ''result'' of
                  Inl e \<Rightarrow> (Inl e, w1)
                | Inr r \<Rightarrow> (Inr (JStr rid', r), w1)))
      | None \<Rightarrow>
          (case (given name, given rtype) of
             (Some name', Some rtype') \<Rightarrow>
               (let fqdn = (if zone_name \<noteq> [] then normalize_name zone_name name' else name') in
                case http_json w GET [Val (JStr base), Lit ''/zones/'', Val zid, Lit ''/dns_records'']
                       token None [(''type'', JStr rtype'), (''name'', JStr fqdn)] of
                  (Inl e, w1) \<Rightarrow> (Inl e, w1)
                | (Inr js, w1) \<Rightarrow>
                    (case py_get js ''result'' JNull of
                       Inl e \<Rightarrow> (Inl e, w1)
                     | Inr res \<Rightarrow>
                         (let matches = py_or res (JArr []) in
                          if \<not> truthy matches then (die (NoRecordsMatch rtype' fqdn) 3, w1)
                          else
                            (case py_len matches of
                               Inl e \<Rightarrow> (Inl e, w1)
                             | Inr n \<Rightarrow>
                                 if n = 1 then
                                   (case py_first matches of
                                      Inl e \<Rightarrow> (Inl e, w1)
                                    | Inr r \<Rightarrow>
                                        (case py_item r ''id'' of
                                           Inl e \<Rightarrow> (Inl e, w1)
                                         | Inr i \<Rightarrow> (Inr (i, r), w1)))
                                 else if \<not> stdin_isatty w1 then
                                   (die (MultipleRecordsMatch rtype' fqdn) 3, w1)
                                 else
                                   (case render_table matches of
                                      Inl e \<Rightarrow> (Inl e, w1)
                                    | Inr u \<Rightarrow>
                                        (case py_input w1 choose_prompt of
                                           (Inl e, w2) \<Rightarrow> (Inl e, w2)
                                         | (Inr line, w2) \<Rightarrow>
                                             (let choice = strip line in
                                              if choice = [] then (Inl (Exit NoRecordSelected 0), w2)
                                              else
                                                (case py_iter matches of
                                                   Inl e \<Rightarrow> (Inl e, w2)
                                                 | Inr ms \<Rightarrow>
                                                     (case first_with_id choice ms of
                                                        Inl e \<Rightarrow> (Inl e, w2)
                                                      | Inr sel \<Rightarrow>
                                                          if \<not> truthy sel then (die InvalidRecordId 2, w2)
                                                          else (Inr (JStr choice, sel), w2))))))))))
           | _ \<Rightarrow> (die ProvideIdOrNameType 2, w)))"

subsection \<open>The zones command\<close>

text \<open>
  \<^verbatim>\<open>def cmd_zones(token, base):
    print("id\tname\tstatus\tplan")
    page, per = 1, 50
    while True:
        js = http_json("GET", f"{base}/zones", token, params={"page": page, "per_page": per})
        for z in js.get("result", []):
            print(f"{z.get('id','')}\t{z.get('name','')}\t{z.get('status','')}\t{(z.get('plan') or {}).get('name','')}")
        info = js.get("result_info") or {}
        if page >= int(info.get("total_pages", 1)): break
        page += 1\<close>
\<close>

definition zone_row :: "json \<Rightarrow> error + unit" where
  "zone_row z =
     (case py_get z ''plan'' JNull of
        Inl e \<Rightarrow> Inl e
      | Inr plan \<Rightarrow>
          (case py_get (py_or plan (JObj [])) ''name'' (JStr []) of
             Inl e \<Rightarrow> Inl e
           | Inr v \<Rightarrow> Inr ()))"

partial_function (option) zones_loop ::
  "world \<Rightarrow> string \<Rightarrow> string \<Rightarrow> int \<Rightarrow> int \<Rightarrow> ((error + unit) \<times> world) option" where
  "zones_loop w token base page per =
     (case http_json w GET [Val (JStr base), Lit ''/zones''] token None
             [(''page'', JInt page), (''per_page'', JInt per)] of
        (Inl e, w1) \<Rightarrow> Some (Inl e, w1)
      | (Inr js, w1) \<Rightarrow>
          (case py_get js ''result'' (JArr []) of
             Inl e \<Rightarrow> Some (Inl e, w1)
           | Inr r \<Rightarrow>
               (case py_iter r of
                  Inl e \<Rightarrow> Some (Inl e, w1)
                | Inr zs \<Rightarrow>
                    (case for_each zone_row zs of
                       Inl e \<Rightarrow> Some (Inl e, w1)
                     | Inr u \<Rightarrow>
                         (case py_get js ''result_info'' JNull of
                            Inl e \<Rightarrow> Some (Inl e, w1)
                          | Inr i \<Rightarrow>
                              (case py_get (py_or i (JObj [])) ''total_pages'' (JInt 1) of
                                 Inl e \<Rightarrow> Some (Inl e, w1)
                               | Inr t \<Rightarrow>
                                   (case py_int t of
                                      Inl e \<Rightarrow> Some (Inl e, w1)
                                    | Inr last_page \<Rightarrow>
                                        if page \<ge> last_page then Some (Inr (), w1)
                                        else zones_loop w1 token base (page + 1) per)))))))"

definition cmd_zones :: "world \<Rightarrow> string \<Rightarrow> string \<Rightarrow> ((error + unit) \<times> world) option" where
  "cmd_zones w token base = zones_loop w token base 1 50"

subsection \<open>Mutation guard\<close>

text \<open>
  \<^verbatim>\<open>def confirm(prompt, yes):
    if yes: return
    ans = input(f"{prompt} [y/N] ").strip().lower()
    if ans not in ("y","yes"):
        print("Aborted.", file=sys.stderr)
        sys.exit(0)\<close>
\<close>

definition confirm :: "world \<Rightarrow> string \<Rightarrow> bool \<Rightarrow> (error + unit) \<times> world" where
  "confirm w prompt yes =
     (if yes then (Inr (), w)
      else
        (case py_input w (prompt @ '' [y/N] '') of
           (Inl e, w1) \<Rightarrow> (Inl e, w1)
         | (Inr line, w1) \<Rightarrow>
             (let ans = lower (strip line) in
              if ans \<notin> set [''y'', ''yes''] then (Inl (Exit Aborted 0), w1)
              else (Inr (), w1))))"

text \<open>An optional \<open>--ttl\<close> and an optional \<open>--proxied\<close>, as Python values.\<close>

fun of_ttl :: "int option \<Rightarrow> json" where
  "of_ttl None = JNull"
| "of_ttl (Some n) = JInt n"

fun of_proxied :: "bool option \<Rightarrow> json" where
  "of_proxied None = JNull"
| "of_proxied (Some b) = JBool b"

text \<open>
  \<^verbatim>\<open>def cmd_add(token, zone, name, rtype, content, ttl, proxied, yes, base):
    zid = zone_id(token, zone, base)
    fqdn = normalize_name(zone, name)
    rtype = rtype.upper()
    payload = build_payload(fqdn, rtype, content, ttl, proxied)
    print(f"About to CREATE: {rtype} {fqdn} -> {content}")
    confirm("Proceed?", yes)
    js = http_json("POST", f"{base}/zones/{zid}/dns_records", token, payload=payload)
    r = js["result"]
    print(f"Record {r.get('name')} ({r.get('type')}) created: ...")\<close>
\<close>

definition cmd_add ::
  "world \<Rightarrow> string \<Rightarrow> string \<Rightarrow> string \<Rightarrow> string \<Rightarrow> string \<Rightarrow> int option \<Rightarrow> bool option \<Rightarrow> bool \<Rightarrow> string
     \<Rightarrow> (error + unit) \<times> world" where
  "cmd_add w token zone name rtype content ttl proxied yes base =
     (case zone_id w token zone base of
        (Inl e, w1) \<Rightarrow> (Inl e, w1)
      | (Inr zid, w1) \<Rightarrow>
          (let fqdn = normalize_name zone name; rtype' = upper rtype in
           case build_payload (JStr fqdn) (JStr rtype') (JStr content) (of_ttl ttl) (of_proxied proxied) of
             Inl e \<Rightarrow> (Inl e, w1)
           | Inr payload \<Rightarrow>
               (case confirm w1 ''Proceed?'' yes of
                  (Inl e, w2) \<Rightarrow> (Inl e, w2)
                | (Inr u, w2) \<Rightarrow>
                    (case http_json w2 POST [Val (JStr base), Lit ''/zones/'', Val zid, Lit ''/dns_records'']
                            token (Some payload) [] of
                       (Inl e, w3) \<Rightarrow> (Inl e, w3)
                     | (Inr js, w3) \<Rightarrow>
                         (case py_item js ''result'' of
                            Inl e \<Rightarrow> (Inl e, w3)
                          | Inr r \<Rightarrow>
                              (case py_get r ''name'' JNull of
                                 Inl e \<Rightarrow> (Inl e, w3)
                               | Inr v \<Rightarrow> (Inr (), w3)))))))"

text \<open>
  The fields of an update, lines 167 to 172 of \<open>cmd_update\<close>; \<open>rtype\<close> is already
  upper-cased.
  \<^verbatim>\<open>    new_name = normalize_name(zone, name) if name else current.get("name")
    new_type = rtype or current.get("type")
    new_content = content if content is not None else current.get("content")
    new_ttl = ttl if ttl is not None else current.get("ttl")
    prox_eff = proxied if proxied is not None else (bool(current.get("proxied")) if isinstance(current.get("proxied"), bool) else None)
    payload = build_payload(new_name, new_type, new_content, new_ttl, prox_eff)\<close>
\<close>

definition update_payload ::
  "string \<Rightarrow> string option \<Rightarrow> string option \<Rightarrow> string option \<Rightarrow> int option \<Rightarrow> bool option \<Rightarrow> json
     \<Rightarrow> error + json" where
  "update_payload zone name rtype content ttl proxied current =
     (case (case given name of Some n \<Rightarrow> Inr (JStr (normalize_name zone n))
                              | None \<Rightarrow> py_get current ''name'' JNull) of
        Inl e \<Rightarrow> Inl e
      | Inr new_name \<Rightarrow>
     (case (case given rtype of Some t \<Rightarrow> Inr (JStr t)
                               | None \<Rightarrow> py_get current ''type'' JNull) of
        Inl e \<Rightarrow> Inl e
      | Inr new_type \<Rightarrow>
     (case (case content of Some c \<Rightarrow> Inr (JStr c)
                          | None \<Rightarrow> py_get current ''content'' JNull) of
        Inl e \<Rightarrow> Inl e
      | Inr new_content \<Rightarrow>
     (case (case ttl of Some n \<Rightarrow> Inr (JInt n)
                      | None \<Rightarrow> py_get current ''ttl'' JNull) of
        Inl e \<Rightarrow> Inl e
      | Inr new_ttl \<Rightarrow>
     (case (case proxied of Some b \<Rightarrow> Inr (JBool b)
                          | None \<Rightarrow>
                              (case py_get current ''proxied'' JNull of
                                 Inl e \<Rightarrow> Inl e
                               | Inr (JBool b) \<Rightarrow> Inr (JBool b)
                               | Inr v \<Rightarrow> Inr JNull)) of
        Inl e \<Rightarrow> Inl e
      | Inr prox_eff \<Rightarrow> build_payload new_name new_type new_content new_ttl prox_eff)))))"

text \<open>
  \<^verbatim>\<open>def cmd_update(token, zone, rid, name, rtype, content, ttl, proxied, yes, base):
    zid = zone_id(token, zone, base)
    rtype = rtype.upper() if rtype else None
    rid, current = find_record(token, zid, rid, name, rtype, zone, base)
    ... (the fields, above)
    print("About to UPDATE:")
    print(f"from: {current.get('type')} {current.get('name')} -> {current.get('content')}")
    print(f"to:   {new_type} {new_name} -> {new_content}")
    confirm("Proceed?", yes)
    js = http_json("PUT", f"{base}/zones/{zid}/dns_records/{rid}", token, payload=payload)
    r = js["result"]
    print(f"Record {r.get('name')} ({r.get('type')}) updated: ...")\<close>
\<close>

definition cmd_update ::
  "world \<Rightarrow> string \<Rightarrow> string \<Rightarrow> string option \<Rightarrow> string option \<Rightarrow> string option \<Rightarrow> string option
     \<Rightarrow> int option \<Rightarrow> bool option \<Rightarrow> bool \<Rightarrow> string \<Rightarrow> (error + unit) \<times> world" where
  "cmd_update w token zone rid name rtype content ttl proxied yes base =
     (case zone_id w token zone base of
        (Inl e, w1) \<Rightarrow> (Inl e, w1)
      | (Inr zid, w1) \<Rightarrow>
          (let rtype' = map_option upper (given rtype) in
           case find_record w1 token zid rid name rtype' zone base of
             (Inl e, w2) \<Rightarrow> (Inl e, w2)
           | (Inr (rid', current), w2) \<Rightarrow>
               (case update_payload zone name rtype' content ttl proxied current of
                  Inl e \<Rightarrow> (Inl e, w2)
                | Inr payload \<Rightarrow>
                    (case py_get current ''type'' JNull of
                       Inl e \<Rightarrow> (Inl e, w2)
                     | Inr v \<Rightarrow>
                         (case confirm w2 ''Proceed?'' yes of
                            (Inl e, w3) \<Rightarrow> (Inl e, w3)
                          | (Inr u, w3) \<Rightarrow>
                              (case http_json w3 PUT
                                      [Val (JStr base), Lit ''/zones/'', Val zid, Lit ''/dns_records/'', Val rid']
                                      token (Some payload) [] of
                                 (Inl e, w4) \<Rightarrow> (Inl e, w4)
                               | (Inr js, w4) \<Rightarrow>
                                   (case py_item js ''result'' of
                                      Inl e \<Rightarrow> (Inl e, w4)
                                    | Inr r \<Rightarrow>
                                        (case py_get r ''name'' JNull of
                                           Inl e \<Rightarrow> (Inl e, w4)
                                         | Inr v' \<Rightarrow> (Inr (), w4)))))))))"

text \<open>
  \<^verbatim>\<open>def cmd_delete(token, zone, rid, name, rtype, yes, base):
    zid = zone_id(token, zone, base)
    rtype = rtype.upper() if rtype else None
    rid, current = find_record(token, zid, rid, name, rtype, zone, base)
    print(f"About to DELETE: {current.get('type')} {current.get('name')} -> {current.get('content')}")
    confirm("Proceed?", yes)
    http_json("DELETE", f"{base}/zones/{zid}/dns_records/{rid}", token)
    print(f"Record {current.get('name')} ({current.get('type')}) deleted: {current.get('content')}")\<close>
\<close>

definition cmd_delete ::
  "world \<Rightarrow> string \<Rightarrow> string \<Rightarrow> string option \<Rightarrow> string option \<Rightarrow> string option \<Rightarrow> bool \<Rightarrow> string
     \<Rightarrow> (error + unit) \<times> world" where
  "cmd_delete w token zone rid name rtype yes base =
     (case zone_id w token zone base of
        (Inl e, w1) \<Rightarrow> (Inl e, w1)
      | (Inr zid, w1) \<Rightarrow>
          (let rtype' = map_option upper (given rtype) in
           case find_record w1 token zid rid name rtype' zone base of
             (Inl e, w2) \<Rightarrow> (Inl e, w2)
           | (Inr (rid', current), w2) \<Rightarrow>
               (case py_get current ''type'' JNull of
                  Inl e \<Rightarrow> (Inl e, w2)
                | Inr v \<Rightarrow>
                    (case confirm w2 ''Proceed?'' yes of
                       (Inl e, w3) \<Rightarrow> (Inl e, w3)
                     | (Inr u, w3) \<Rightarrow>
                         (case http_json w3 DELETE
                                 [Val (JStr base), Lit ''/zones/'', Val zid, Lit ''/dns_records/'', Val rid']
                                 token None [] of
                            (Inl e, w4) \<Rightarrow> (Inl e, w4)
                          | (Inr js, w4) \<Rightarrow> (Inr (), w4))))))"

subsection \<open>Vocabulary of the statements\<close>

text \<open>A world in which nothing has happened yet.\<close>

definition init_world :: "(request list \<Rightarrow> request \<Rightarrow> reply) \<Rightarrow> bool \<Rightarrow> string list \<Rightarrow> world" where
  "init_world srv tty lines =
     \<lparr>server = srv, requests = [], stdin_isatty = tty, stdin = lines, prompts = []\<rparr>"

text \<open>A candidate is a record when it is a JSON object; \<open>has_id i c\<close> is \<open>c.get("id") == i\<close>.\<close>

fun is_record :: "json \<Rightarrow> bool" where
  "is_record (JObj kvs) = True"
| "is_record x = False"

definition has_id :: "string \<Rightarrow> json \<Rightarrow> bool" where
  "has_id i c = (py_get c ''id'' JNull = Inr (JStr i))"

text \<open>The requests the program makes.\<close>

definition zone_query :: "string \<Rightarrow> string \<Rightarrow> string \<Rightarrow> request" where
  "zone_query token zone_name base =
     make_request GET [Val (JStr base), Lit ''/zones''] token None [(''name'', JStr zone_name)]"

definition fetch_by_id :: "string \<Rightarrow> json \<Rightarrow> string \<Rightarrow> string \<Rightarrow> request" where
  "fetch_by_id token zid rid base =
     make_request GET [Val (JStr base), Lit ''/zones/'', Val zid, Lit ''/dns_records/'', Val (JStr rid)]
       token None []"

definition name_type_query :: "string \<Rightarrow> json \<Rightarrow> string \<Rightarrow> string \<Rightarrow> string \<Rightarrow> request" where
  "name_type_query token zid rtype fqdn base =
     make_request GET [Val (JStr base), Lit ''/zones/'', Val zid, Lit ''/dns_records'']
       token None [(''type'', JStr rtype), (''name'', JStr fqdn)]"

definition records_page :: "string \<Rightarrow> json \<Rightarrow> string option \<Rightarrow> string \<Rightarrow> int \<Rightarrow> request" where
  "records_page token zid rtype base page =
     make_request GET [Val (JStr base), Lit ''/zones/'', Val zid, Lit ''/dns_records'']
       token None
       ([(''page'', JInt page), (''per_page'', JInt 100)]
        @ (case given rtype of None \<Rightarrow> [] | Some t \<Rightarrow> [(''type'', JStr t)]))"

definition zones_page :: "string \<Rightarrow> string \<Rightarrow> int \<Rightarrow> request" where
  "zones_page token base page =
     make_request GET [Val (JStr base), Lit ''/zones''] token None
       [(''page'', JInt page), (''per_page'', JInt 50)]"

text \<open>
  A reply lists a page: it is a success whose \<open>result\<close> is the list \<open>items\<close> and whose
  \<open>result_info\<close> reports \<open>total_pages = k\<close>.
\<close>

definition lists_page :: "reply \<Rightarrow> json list \<Rightarrow> int \<Rightarrow> bool" where
  "lists_page rep items k =
     (case rep of
        Response status js \<Rightarrow>
          (case py_get js ''success'' (JBool False) of Inr ok \<Rightarrow> truthy ok | Inl e \<Rightarrow> False)
          \<and> py_get js ''result'' JNull = Inr (JArr items)
          \<and> (case py_get js ''result_info'' JNull of
                Inr info \<Rightarrow> py_get info ''total_pages'' JNull = Inr (JInt k)
              | Inl e \<Rightarrow> False)
      | _ \<Rightarrow> False)"

text \<open>The mutating requests, and what makes a request mutating.\<close>

definition create_request :: "string \<Rightarrow> json \<Rightarrow> json \<Rightarrow> string \<Rightarrow> request" where
  "create_request token zid payload base =
     make_request POST [Val (JStr base), Lit ''/zones/'', Val zid, Lit ''/dns_records'']
       token (Some payload) []"

definition update_request :: "string \<Rightarrow> json \<Rightarrow> json \<Rightarrow> json \<Rightarrow> string \<Rightarrow> request" where
  "update_request token zid rid payload base =
     make_request PUT [Val (JStr base), Lit ''/zones/'', Val zid, Lit ''/dns_records/'', Val rid]
       token (Some payload) []"

definition delete_request :: "string \<Rightarrow> json \<Rightarrow> json \<Rightarrow> string \<Rightarrow> request" where
  "delete_request token zid rid base =
     make_request DELETE [Val (JStr base), Lit ''/zones/'', Val zid, Lit ''/dns_records/'', Val rid]
       token None []"

definition mutating :: "request \<Rightarrow> bool" where
  "mutating req = (req_method req \<noteq> GET)"

text \<open>An answer to the confirmation prompt is affirmative when the gate lets it pass.\<close>

definition affirmative :: "string \<Rightarrow> bool" where
  "affirmative line = (lower (strip line) \<in> set [''y'', ''yes''])"

definition confirm_prompt :: string where
  "confirm_prompt = ''Proceed? [y/N] ''"




subsection \<open>Example worlds\<close>

text \<open>The no-break space U+00A0, which is whitespace to Python.\<close>

definition nbsp :: char where
  "nbsp = CHR 0xA0"

text \<open>Lines typed at a prompt: one of whitespace only, and an id with whitespace around it.\<close>

definition blank_line :: string where
  "blank_line = nbsp # ''  ''"

definition padded_r3 :: string where
  "padded_r3 = '' r3'' @ [nbsp]"

definition padded_token :: string where
  "padded_token = nbsp # ''abc ''"

text \<open>A file system with one token file, whose first line ends with a newline.\<close>

definition demo_files :: "string \<Rightarrow> string option" where
  "demo_files path = (if path = ''token.txt'' then Some (''secret'' @ [CHR 0x0A]) else None)"

text \<open>
  A server for one zone, \<open>example.com\<close>. The exact-name zone query finds the zone only
  under that name. The filtered record query finds one record named
  \<open>www.example.com\<close> (on a listing that reports two pages), two records named
  \<open>mail.example.com\<close> and none under any other name. The record listing has three
  pages, the zone listing two. Every other request is answered with one record.
\<close>

definition success :: "json \<Rightarrow> int \<Rightarrow> reply" where
  "success result pages =
     Response 200 (JObj [(''success'', JBool True), (''result'', result),
                         (''result_info'', JObj [(''total_pages'', JInt pages)])])"

definition demo_zone :: json where
  "demo_zone = JObj [(''id'', JStr ''z1''), (''name'', JStr ''example.com'')]"

definition demo_record :: "string \<Rightarrow> string \<Rightarrow> string \<Rightarrow> json" where
  "demo_record i name content =
     JObj [(''id'', JStr i), (''type'', JStr ''A''), (''name'', JStr name),
           (''content'', JStr content), (''ttl'', JInt 300), (''proxied'', JBool True)]"

definition demo_page :: "int \<Rightarrow> json list" where
  "demo_page i =
     (if i = 1 then [demo_record ''r1'' ''www.example.com'' ''1.2.3.4'',
                     demo_record ''r2'' ''mail.example.com'' ''1.2.3.5'']
      else if i = 2 then [demo_record ''r3'' ''mail.example.com'' ''1.2.3.6'']
      else [demo_record ''r4'' ''ftp.example.com'' ''1.2.3.7''])"

definition demo_server :: "request list \<Rightarrow> request \<Rightarrow> reply" where
  "demo_server hist req =
     (case rev (req_url req) of
        [] \<Rightarrow> URLError
      | p # ps \<Rightarrow>
          if p = Lit ''/zones'' then
            (case map_of (req_params req) ''name'' of
               Some n \<Rightarrow> if n = JStr ''example.com'' then success (JArr [demo_zone]) 1
                         else success (JArr []) 1
             | None \<Rightarrow> success (JArr [demo_zone]) 2)
          else if p = Lit ''/dns_records'' \<and> req_method req = GET then
            (case map_of (req_params req) ''name'' of
               Some n \<Rightarrow>
                 if n = JStr ''www.example.com''
                 then success (JArr [demo_record ''r1'' ''www.example.com'' ''1.2.3.4'']) 2
                 else if n = JStr ''mail.example.com''
                 then success (JArr [demo_record ''r2'' ''mail.example.com'' ''1.2.3.5'',
                                     demo_record ''r3'' ''mail.example.com'' ''1.2.3.6'']) 1
                 else success (JArr []) 1
             | None \<Rightarrow>
                 (case map_of (req_params req) ''page'' of
                    Some (JInt i) \<Rightarrow> success (JArr (demo_page i)) 3
                  | _ \<Rightarrow> Garbled 400))
          else success (demo_record ''r1'' ''www.example.com'' ''1.2.3.4'') 1)"


text \<open>The world before the program starts: a terminal or not, and the lines typed.\<close>

definition demo_world :: "bool \<Rightarrow> string list \<Rightarrow> world" where
  "demo_world tty lines = init_world demo_server tty lines"

section \<open>Properties\<close>

subsection \<open>Name normalization\<close>

text \<open>
  C5. For every zone \<open>z\<close> and name \<open>n\<close>: when \<open>n\<close> equals \<open>z\<close> or ends with a dot
  followed by \<open>z\<close>, \<open>normalize_name\<close> leaves \<open>n\<close> as it is; otherwise it appends a dot
  and \<open>z\<close>. Normalizing a second time changes nothing.
\<close>

theorem normalize_name_cases:
  "(n = z \<or> endswith n (''.'' @ z) \<longrightarrow> normalize_name z n = n)
   \<and> (\<not> (n = z \<or> endswith n (''.'' @ z)) \<longrightarrow> normalize_name z n = n @ ''.'' @ z)
   \<and> normalize_name z (normalize_name z n) = normalize_name z n"
  by (simp add: normalize_name_def endswith_def suffix_def)

theorem normalize_name_cases_witness:
  "normalize_name ''example.com'' ''www'' = ''www.example.com''
   \<and> normalize_name ''example.com'' ''www.example.com'' = ''www.example.com''
   \<and> normalize_name ''example.com'' ''example.com'' = ''example.com''
   \<and> normalize_name ''example.com'' (normalize_name ''example.com'' ''www'') = ''www.example.com''"
proof -
  have bare: "\<not> (''www'' = ''example.com'' \<or> endswith ''www'' (''.'' @ ''example.com''))"
    by (simp add: endswith_def suffix_def)
  have full: "endswith ''www.example.com'' (''.'' @ ''example.com'')"
    by (simp add: endswith_def suffix_def)
  show ?thesis
    using normalize_name_cases [of "''www''" "''example.com''"]
      normalize_name_cases [of "''www.example.com''" "''example.com''"]
      normalize_name_cases [of "''example.com''" "''example.com''"]
      bare full
    by simp
qed

subsection \<open>Token loading\<close>

text \<open>
  C10. An empty \<open>CF_API_TOKEN\<close> counts as an unset one: \<open>read_token\<close> then turns to the
  token file. A non-empty value of the variable is returned stripped. Without the
  variable, the first line of a readable token file is returned stripped; a missing (or
  empty) \<open>--token-file\<close> and a file that cannot be read both end the process with exit
  code 2.
\<close>

theorem read_token_sources:
  "read_token (Some []) files token_file = read_token None files token_file
   \<and> (t \<noteq> [] \<longrightarrow> read_token (Some t) files token_file = Inr (strip t))
   \<and> (given token_file = None \<longrightarrow> read_token None files token_file = Inl (Exit NoToken 2))
   \<and> (\<forall>path. given token_file = Some path \<and> files path = None \<longrightarrow>
         read_token None files token_file = Inl (Exit ErrorReadingTokenFile 2))
   \<and> (\<forall>path line. given token_file = Some path \<and> files path = Some line \<longrightarrow>
         read_token None files token_file = Inr (strip line))"
  by (simp add: read_token_def die_def)

theorem read_token_sources_witness:
  "read_token (Some []) demo_files (Some ''token.txt'') = Inr ''secret''
   \<and> read_token (Some padded_token) demo_files (Some ''token.txt'') = Inr ''abc''
   \<and> read_token None demo_files None = Inl (Exit NoToken 2)
   \<and> read_token None demo_files (Some ''missing.txt'') = Inl (Exit ErrorReadingTokenFile 2)
   \<and> read_token None demo_files (Some ''token.txt'') = Inr ''secret''"
proof -
  have f1: "given (Some ''token.txt'') = Some ''token.txt'' \<and> demo_files ''token.txt'' = Some (''secret'' @ [CHR 0x0A])"
    by (simp add: demo_files_def)
  have f2: "given (Some ''missing.txt'') = Some ''missing.txt'' \<and> demo_files ''missing.txt'' = None"
    by (simp add: demo_files_def)
  have s1: "strip (''secret'' @ [CHR 0x0A]) = ''secret''" by code_simp
  have s2: "strip padded_token = ''abc''" by code_simp
  have ne: "padded_token \<noteq> []" by (simp add: padded_token_def)
  show ?thesis
    using read_token_sources [of demo_files "Some ''token.txt''" padded_token]
      read_token_sources [of demo_files None padded_token]
      read_token_sources [of demo_files "Some ''missing.txt''" padded_token]
      f1 f2 s1 s2 ne
    by simp
qed

subsection \<open>Facts about the effects\<close>

lemma http_json_world:
  "snd (http_json w m u t p q) = w\<lparr>requests := requests w @ [make_request m u t p q]\<rparr>"
  by (simp add: http_json_def Let_def)

lemma http_json_worldD:
  "http_json w m u t p q = (r, w1) \<Longrightarrow> w1 = w\<lparr>requests := requests w @ [make_request m u t p q]\<rparr>"
  using http_json_world [of w m u t p q] by simp

lemma py_get_present:
  "py_get x key JNull = Inr v \<Longrightarrow> v \<noteq> JNull \<Longrightarrow> py_or x y = x \<and> py_get x key d = Inr v"
  by (cases x) (auto simp: py_or_def split: option.splits)

lemma py_iter_or: "py_iter (py_or (JArr items) (JArr [])) = Inr items"
  by (simp add: py_or_def)

lemma for_each_ok: "\<forall>z\<in>set zs. f z = Inr () \<Longrightarrow> for_each f zs = Inr ()"
  by (induction zs) auto

lemma upto3: "[1..3::int] = [1, 2, 3]"
  by (simp add: upto_rec1)

text \<open>What the program reads from a reply that lists a page.\<close>

lemma http_json_lists_page:
  assumes "lists_page (server w (requests w) (make_request m u t p q)) items k"
  obtains js info where
    "http_json w m u t p q = (Inr js, w\<lparr>requests := requests w @ [make_request m u t p q]\<rparr>)"
    "\<And>d. py_get js ''result'' d = Inr (JArr items)"
    "py_get js ''result_info'' JNull = Inr info"
    "py_get (py_or info (JObj [])) ''total_pages'' (JInt 1) = Inr (JInt k)"
proof -
  from assms obtain status js where
    rep: "server w (requests w) (make_request m u t p q) = Response status js"
    by (cases "server w (requests w) (make_request m u t p q)") (auto simp: lists_page_def)
  from assms rep obtain ok where ok: "py_get js ''success'' (JBool False) = Inr ok" "truthy ok"
    by (cases "py_get js ''success'' (JBool False)") (auto simp: lists_page_def)
  from assms rep have "py_get js ''result'' JNull = Inr (JArr items)"
    by (simp add: lists_page_def)
  then have res: "\<And>d. py_get js ''result'' d = Inr (JArr items)"
    using py_get_present [of js "''result''" "JArr items"] by simp
  from assms rep obtain info where
    inf: "py_get js ''result_info'' JNull = Inr info"
    and tp: "py_get info ''total_pages'' JNull = Inr (JInt k)"
    by (cases "py_get js ''result_info'' JNull") (auto simp: lists_page_def)
  have "py_get (py_or info (JObj [])) ''total_pages'' (JInt 1) = Inr (JInt k)"
    using py_get_present [OF tp, of "JObj []" "JInt 1"] by simp
  moreover have "http_json w m u t p q
      = (Inr js, w\<lparr>requests := requests w @ [make_request m u t p q]\<rparr>)"
    using rep ok by (simp add: http_json_def Let_def)
  ultimately show ?thesis using res inf that by blast
qed

text \<open>The example server at work.\<close>

lemma demo_requests: "requests (demo_world tty lines) = []"
  by (simp add: demo_world_def init_world_def)

lemma demo_zone_query:
  "http_json (demo_world tty lines) GET [Val (JStr base), Lit ''/zones''] token None
       [(''name'', JStr ''example.com'')]
     = (Inr (JObj [(''success'', JBool True), (''result'', JArr [demo_zone]),
                   (''result_info'', JObj [(''total_pages'', JInt 1)])]),
        (demo_world tty lines)\<lparr>requests := [zone_query token ''example.com'' base]\<rparr>)"
  by (simp add: http_json_def demo_world_def init_world_def demo_server_def make_request_def
      success_def zone_query_def)

lemma demo_zone_query_other:
  "http_json (demo_world tty lines) GET [Val (JStr base), Lit ''/zones''] token None
       [(''name'', JStr ''example.org'')]
     = (Inr (JObj [(''success'', JBool True), (''result'', JArr []),
                   (''result_info'', JObj [(''total_pages'', JInt 1)])]),
        (demo_world tty lines)\<lparr>requests := [zone_query token ''example.org'' base]\<rparr>)"
  by (simp add: http_json_def demo_world_def init_world_def demo_server_def make_request_def
      success_def zone_query_def)

lemma demo_pages:
  "\<forall>i\<in>{1..3}. \<forall>hist.
     lists_page (server (demo_world tty lines) hist (records_page token zid rtype base i)) (demo_page i) 3"
  by (auto simp: lists_page_def demo_world_def init_world_def demo_server_def records_page_def
      make_request_def success_def split: option.splits)

subsection \<open>Zone resolver\<close>

text \<open>
  C9. Take the exact-name zone query to have come back successfully, with result set
  \<open>rs\<close> (a missing or null \<open>result\<close> counts as the empty set). If \<open>rs\<close> is empty,
  \<open>zone_id\<close> ends the process with exit code 3 and the message for a zone that does not
  exist or is not accessible; nothing in the reply can tell the two apart. If \<open>rs\<close> is
  not empty and its first entry is a zone carrying an id, that id is returned, whatever
  follows it. In both cases the world has changed by that one request only.
\<close>

theorem zone_id_resolution:
  assumes q: "http_json w GET [Val (JStr base), Lit ''/zones''] token None [(''name'', JStr zone_name)]
                = (Inr js, w1)"
    and r: "py_get js ''result'' JNull = Inr r"
    and rs: "py_or r (JArr []) = JArr rs"
  shows "(rs = [] \<longrightarrow> zone_id w token zone_name base = (Inl (Exit (ZoneNotFound zone_name) 3), w1))
       \<and> (\<forall>kvs i rest. rs = JObj kvs # rest \<and> map_of kvs ''id'' = Some i
             \<longrightarrow> zone_id w token zone_name base = (Inr i, w1))
       \<and> w1 = w\<lparr>requests := requests w @ [zone_query token zone_name base]\<rparr>"
  using q r rs http_json_worldD [OF q]
  by (auto simp: zone_id_def zone_query_def die_def)

theorem zone_id_resolution_witness:
  "zone_id (demo_world False []) ''tok'' ''example.com'' API_BASE
     = (Inr (JStr ''z1''),
        (demo_world False [])\<lparr>requests := [zone_query ''tok'' ''example.com'' API_BASE]\<rparr>)
   \<and> zone_id (demo_world False []) ''tok'' ''example.org'' API_BASE
     = (Inl (Exit (ZoneNotFound ''example.org'') 3),
        (demo_world False [])\<lparr>requests := [zone_query ''tok'' ''example.org'' API_BASE]\<rparr>)"
proof -
  have r1: "py_get (JObj [(''success'', JBool True), (''result'', JArr [demo_zone]),
                          (''result_info'', JObj [(''total_pages'', JInt 1)])]) ''result'' JNull
              = Inr (JArr [demo_zone])"
    by simp
  have r2: "py_get (JObj [(''success'', JBool True), (''result'', JArr []),
                          (''result_info'', JObj [(''total_pages'', JInt 1)])]) ''result'' JNull
              = Inr (JArr [])"
    by simp
  have o1: "py_or (JArr [demo_zone]) (JArr []) = JArr [demo_zone]" by (simp add: py_or_def)
  have o2: "py_or (JArr []) (JArr []) = JArr []" by (simp add: py_or_def)
  show ?thesis
    using zone_id_resolution [OF demo_zone_query [where tty = False and lines = "[]"
            and base = API_BASE and token = "''tok''"] r1 o1]
      zone_id_resolution [OF demo_zone_query_other [where tty = False and lines = "[]"
            and base = API_BASE and token = "''tok''"] r2 o2]
    by (simp add: demo_zone_def)
qed

subsection \<open>Record lister\<close>

lemma paginate_loop_pages:
  assumes pages: "\<forall>i\<in>{1..k}. \<forall>hist. lists_page (srv hist (records_page token zid rtype base i)) (items i) k"
  shows "n = nat (k - p) \<Longrightarrow> 1 \<le> p \<Longrightarrow> p \<le> k \<Longrightarrow> server w = srv \<Longrightarrow>
         paginate_loop w token zid rtype base p 100 out
           = Some (Inr (out @ concat (map items [p..k])),
                   w\<lparr>requests := requests w @ map (records_page token zid rtype base) [p..k]\<rparr>)"
proof (induction n arbitrary: p w out)
  case 0
  then have pk: "p = k" by simp
  have lp: "lists_page (server w (requests w)
              (make_request GET [Val (JStr base), Lit ''/zones/'', Val zid, Lit ''/dns_records'']
                 token None ([(''page'', JInt k), (''per_page'', JInt 100)]
                   @ (case given rtype of None \<Rightarrow> [] | Some t \<Rightarrow> [(''type'', JStr t)]))))
              (items k) k"
    using pages 0 pk by (simp add: records_page_def)
  from lp show ?case
    apply (rule http_json_lists_page)
    apply (subst paginate_loop.simps)
    apply (simp add: pk Let_def py_iter_or records_page_def)
    done
next
  case (Suc n)
  then have lt: "p < k" and n: "n = nat (k - (p + 1))" by auto
  have lp: "lists_page (server w (requests w)
              (make_request GET [Val (JStr base), Lit ''/zones/'', Val zid, Lit ''/dns_records'']
                 token None ([(''page'', JInt p), (''per_page'', JInt 100)]
                   @ (case given rtype of None \<Rightarrow> [] | Some t \<Rightarrow> [(''type'', JStr t)]))))
              (items p) k"
    using pages Suc.prems by (simp add: records_page_def)
  let ?w1 = "w\<lparr>requests := requests w @ [records_page token zid rtype base p]\<rparr>"
  have IH: "paginate_loop ?w1 token zid rtype base (p + 1) 100 (out @ items p)
           = Some (Inr ((out @ items p) @ concat (map items [p + 1..k])),
                   ?w1\<lparr>requests := requests ?w1 @ map (records_page token zid rtype base) [p + 1..k]\<rparr>)"
    using Suc.prems lt by (intro Suc.IH [OF n]) auto
  have up: "[p..k] = p # [p + 1..k]" using lt by (simp add: upto_rec1)
  from lp show ?case
    apply (rule http_json_lists_page)
    apply (subst paginate_loop.simps)
    using lt IH
    apply (simp add: Let_def py_iter_or records_page_def up)
    done
qed

text \<open>
  C6. Let the listing endpoint of a zone answer the request for each page \<open>i\<close> from 1 to
  \<open>k\<close>, whenever it is asked, with the items \<open>items i\<close> and \<open>total_pages = k\<close>, where
  \<open>k\<close> is at least 1. Then \<open>paginate_records\<close> returns, having made exactly the requests
  for pages 1 to \<open>k\<close> in this order, each with \<open>per_page = 100\<close>, and its result is
  \<open>items 1\<close> followed by \<open>items 2\<close> and so on up to \<open>items k\<close>: every item once, in the
  server's order.
\<close>

theorem paginate_records_pages:
  assumes "1 \<le> k"
    and "\<forall>i\<in>{1..k}. \<forall>hist. lists_page (server w hist (records_page token zid rtype base i)) (items i) k"
  shows "paginate_records w token zid rtype base
           = Some (Inr (concat (map items [1..k])),
                   w\<lparr>requests := requests w @ map (records_page token zid rtype base) [1..k]\<rparr>)"
  using paginate_loop_pages [OF assms(2) refl _ assms(1) refl, of "[]"] assms(1)
  by (simp add: paginate_records_def)

theorem paginate_records_pages_witness:
  "paginate_records (demo_world False []) ''tok'' (JStr ''z1'') None API_BASE
     = Some (Inr (demo_page 1 @ demo_page 2 @ demo_page 3),
             (demo_world False [])
               \<lparr>requests := map (records_page ''tok'' (JStr ''z1'') None API_BASE) [1, 2, 3]\<rparr>)"
proof -
  have k: "(1::int) \<le> 3" by simp
  show ?thesis
    using paginate_records_pages [OF k demo_pages, of False "[]" "''tok''" "JStr ''z1''" None API_BASE]
    by (simp add: upto3 demo_requests)
qed

subsection \<open>Record resolver\<close>

lemma for_each_records: "\<forall>c\<in>set cs. is_record c \<Longrightarrow> for_each record_row cs = Inr ()"
proof (induction cs)
  case Nil
  then show ?case by simp
next
  case (Cons c cs)
  then obtain kvs where "c = JObj kvs" by (cases c) auto
  with Cons show ?case by (simp add: record_row_def)
qed

lemma first_with_id_find:
  "\<forall>c\<in>set cs. is_record c \<Longrightarrow>
     first_with_id choice cs = Inr (case find (has_id choice) cs of None \<Rightarrow> JNull | Some m \<Rightarrow> m)"
proof (induction cs)
  case Nil
  then show ?case by simp
next
  case (Cons c cs)
  then obtain kvs where "c = JObj kvs" by (cases c) auto
  with Cons show ?case by (simp add: has_id_def)
qed

lemma has_id_truthy: "has_id choice m \<Longrightarrow> truthy m"
  by (cases m) (auto simp: has_id_def split: option.splits)

lemma find_has_id_truthy: "find (has_id choice) cs = Some m \<Longrightarrow> truthy m"
  by (auto simp: find_Some_iff intro: has_id_truthy)

lemma demo_fetch:
  "http_json (demo_world tty lines) GET
       [Val (JStr base), Lit ''/zones/'', Val zid, Lit ''/dns_records/'', Val (JStr rid)] token None []
     = (Inr (JObj [(''success'', JBool True),
                   (''result'', demo_record ''r1'' ''www.example.com'' ''1.2.3.4''),
                   (''result_info'', JObj [(''total_pages'', JInt 1)])]),
        (demo_world tty lines)\<lparr>requests := [fetch_by_id token zid rid base]\<rparr>)"
  by (simp add: http_json_def demo_world_def init_world_def demo_server_def make_request_def
      success_def fetch_by_id_def)

lemma demo_name_type_query:
  "http_json (demo_world tty lines) GET
       [Val (JStr base), Lit ''/zones/'', Val zid, Lit ''/dns_records''] token None
       [(''type'', JStr t), (''name'', JStr fqdn)]
     = (Inr (JObj [(''success'', JBool True),
                   (''result'',
                    JArr (if fqdn = ''www.example.com''
                          then [demo_record ''r1'' ''www.example.com'' ''1.2.3.4'']
                          else if fqdn = ''mail.example.com''
                          then [demo_record ''r2'' ''mail.example.com'' ''1.2.3.5'',
                                demo_record ''r3'' ''mail.example.com'' ''1.2.3.6'']
                          else [])),
                   (''result_info'',
                    JObj [(''total_pages'', JInt (if fqdn = ''www.example.com'' then 2 else 1))])]),
        (demo_world tty lines)\<lparr>requests := [name_type_query token zid t fqdn base]\<rparr>)"
  by (simp add: http_json_def demo_world_def init_world_def demo_server_def make_request_def
      success_def name_type_query_def)

lemma demo_world_io:
  "stdin_isatty (demo_world tty lines) = tty" "stdin (demo_world tty lines) = lines"
  "prompts (demo_world tty lines) = []"
  by (simp_all add: demo_world_def init_world_def)

text \<open>
  C3. When a non-empty record id is supplied, \<open>find_record\<close> takes the id path and
  nothing else: two calls that differ only in the name and the type they are given make
  the same request, the fetch of that id, and come back with the same outcome.
\<close>

theorem find_record_by_id:
  assumes "rid \<noteq> []"
  shows "find_record w token zid (Some rid) name rtype zone_name base
           = find_record w token zid (Some rid) name' rtype' zone_name base
       \<and> snd (find_record w token zid (Some rid) name rtype zone_name base)
           = w\<lparr>requests := requests w @ [fetch_by_id token zid rid base]\<rparr>"
  using assms
    http_json_world [of w GET
      "[Val (JStr base), Lit ''/zones/'', Val zid, Lit ''/dns_records/'', Val (JStr rid)]" token None "[]"]
  by (auto simp: find_record_def fetch_by_id_def split: prod.splits sum.splits)

theorem find_record_by_id_witness:
  "find_record (demo_world False []) ''tok'' (JStr ''z1'') (Some ''r1'') (Some ''www'') (Some ''A'')
       ''example.com'' API_BASE
     = find_record (demo_world False []) ''tok'' (JStr ''z1'') (Some ''r1'') None (Some ''TXT'')
         ''example.com'' API_BASE
   \<and> find_record (demo_world False []) ''tok'' (JStr ''z1'') (Some ''r1'') (Some ''www'') (Some ''A'')
       ''example.com'' API_BASE
     = (Inr (JStr ''r1'', demo_record ''r1'' ''www.example.com'' ''1.2.3.4''),
        (demo_world False [])\<lparr>requests := [fetch_by_id ''tok'' (JStr ''z1'') ''r1'' API_BASE]\<rparr>)"
proof -
  have ne: "''r1'' \<noteq> []" by simp
  have run: "find_record (demo_world False []) ''tok'' (JStr ''z1'') (Some ''r1'') (Some ''www'')
       (Some ''A'') ''example.com'' API_BASE
     = (Inr (JStr ''r1'', demo_record ''r1'' ''www.example.com'' ''1.2.3.4''),
        (demo_world False [])\<lparr>requests := [fetch_by_id ''tok'' (JStr ''z1'') ''r1'' API_BASE]\<rparr>)"
    by (simp add: find_record_def demo_fetch)
  show ?thesis
    using find_record_by_id [OF ne, of "demo_world False []" "''tok''" "JStr ''z1''" "Some ''www''"
        "Some ''A''" "''example.com''" API_BASE None "Some ''TXT''"] run
    by (simp add: demo_requests)
qed

text \<open>
  C2. Resolution by name and type, with no id given. Take the filtered query to have
  come back successfully with the candidates \<open>cs\<close> (a missing or null \<open>result\<close> counts as
  none). With no candidate, \<open>find_record\<close> ends the process with exit code 3, reporting
  that no records match. With exactly one candidate, a record carrying an id, it returns
  that id and that record. With two or more candidates and a standard input that is not a
  terminal, it ends the process with exit code 3, reporting that multiple records match.
  In all three cases the world has changed by the one request only: nothing was prompted
  and nothing was read.
\<close>

theorem find_record_by_name_type:
  assumes sel: "given rid = None" "given name = Some n" "given rtype = Some t"
    and fq: "fqdn = (if zone_name \<noteq> [] then normalize_name zone_name n else n)"
    and q: "http_json w GET [Val (JStr base), Lit ''/zones/'', Val zid, Lit ''/dns_records'']
              token None [(''type'', JStr t), (''name'', JStr fqdn)] = (Inr js, w1)"
    and r: "py_get js ''result'' JNull = Inr r"
    and cs: "py_or r (JArr []) = JArr cs"
  shows "(cs = [] \<longrightarrow>
            find_record w token zid rid name rtype zone_name base
              = (Inl (Exit (NoRecordsMatch t fqdn) 3), w1))
       \<and> (\<forall>kvs i. cs = [JObj kvs] \<and> map_of kvs ''id'' = Some i \<longrightarrow>
            find_record w token zid rid name rtype zone_name base = (Inr (i, JObj kvs), w1))
       \<and> (2 \<le> length cs \<and> \<not> stdin_isatty w \<longrightarrow>
            find_record w token zid rid name rtype zone_name base
              = (Inl (Exit (MultipleRecordsMatch t fqdn) 3), w1))
       \<and> w1 = w\<lparr>requests := requests w @ [name_type_query token zid t fqdn base]\<rparr>"
proof -
  have w1: "w1 = w\<lparr>requests := requests w @ [name_type_query token zid t fqdn base]\<rparr>"
    using http_json_worldD [OF q] by (simp add: name_type_query_def)
  have tty: "stdin_isatty w1 = stdin_isatty w" by (simp add: w1)
  show ?thesis
    using sel q [unfolded fq] r cs w1 tty
    by (auto simp: find_record_def die_def fq Let_def)
qed

theorem find_record_by_name_type_witness:
  "find_record (demo_world False []) ''tok'' (JStr ''z1'') None (Some ''ftp'') (Some ''A'')
       ''example.com'' API_BASE
     = (Inl (Exit (NoRecordsMatch ''A'' ''ftp.example.com'') 3),
        (demo_world False [])
          \<lparr>requests := [name_type_query ''tok'' (JStr ''z1'') ''A'' ''ftp.example.com'' API_BASE]\<rparr>)
   \<and> find_record (demo_world False []) ''tok'' (JStr ''z1'') None (Some ''www'') (Some ''A'')
       ''example.com'' API_BASE
     = (Inr (JStr ''r1'', demo_record ''r1'' ''www.example.com'' ''1.2.3.4''),
        (demo_world False [])
          \<lparr>requests := [name_type_query ''tok'' (JStr ''z1'') ''A'' ''www.example.com'' API_BASE]\<rparr>)
   \<and> find_record (demo_world False []) ''tok'' (JStr ''z1'') None (Some ''mail'') (Some ''A'')
       ''example.com'' API_BASE
     = (Inl (Exit (MultipleRecordsMatch ''A'' ''mail.example.com'') 3),
        (demo_world False [])
          \<lparr>requests := [name_type_query ''tok'' (JStr ''z1'') ''A'' ''mail.example.com'' API_BASE]\<rparr>)"
proof -
  have g: "given (None :: string option) = None" "given (Some ''A'') = Some ''A''"
    "given (Some ''ftp'') = Some ''ftp''" "given (Some ''www'') = Some ''www''"
    "given (Some ''mail'') = Some ''mail''"
    by simp_all
  have f: "''ftp.example.com'' = (if ''example.com'' \<noteq> [] then normalize_name ''example.com'' ''ftp'' else ''ftp'')"
    "''www.example.com'' = (if ''example.com'' \<noteq> [] then normalize_name ''example.com'' ''www'' else ''www'')"
    "''mail.example.com'' = (if ''example.com'' \<noteq> [] then normalize_name ''example.com'' ''mail'' else ''mail'')"
    by (simp_all add: normalize_name_def endswith_def suffix_def)
  have o: "\<And>xs. py_or (JArr xs) (JArr []) = JArr xs" by (simp add: py_or_def)
  have get: "\<And>x y. py_get (JObj [(''success'', JBool True), (''result'', x), (''result_info'', y)])
               ''result'' JNull = Inr x"
    by simp
  have tty: "\<not> stdin_isatty (demo_world False [])" by (simp add: demo_world_io)
  show ?thesis
    using
      find_record_by_name_type [OF g(1) g(3) g(2) f(1)
        demo_name_type_query [where tty = False and lines = "[]" and token = "''tok''"
          and zid = "JStr ''z1''" and base = API_BASE] get o]
      find_record_by_name_type [OF g(1) g(4) g(2) f(2)
        demo_name_type_query [where tty = False and lines = "[]" and token = "''tok''"
          and zid = "JStr ''z1''" and base = API_BASE] get o]
      find_record_by_name_type [OF g(1) g(5) g(2) f(3)
        demo_name_type_query [where tty = False and lines = "[]" and token = "''tok''"
          and zid = "JStr ''z1''" and base = API_BASE] get o]
      tty
    by (simp add: demo_record_def)
qed

text \<open>
  C7. The interactive step. Take the filtered query to have come back with two or more
  candidates, all of them records, on a terminal, with a line to read. The candidates
  are shown and the id is asked for once. A line that is blank after stripping ends the
  process with exit code 0. Any other line is compared, stripped, with the ids of the
  candidates: if none has that id the process ends with exit code 2, reporting an invalid
  record id; otherwise the first candidate with that id is returned under that id.
\<close>

theorem find_record_interactive:
  assumes sel: "given rid = None" "given name = Some n" "given rtype = Some t"
    and fq: "fqdn = (if zone_name \<noteq> [] then normalize_name zone_name n else n)"
    and q: "http_json w GET [Val (JStr base), Lit ''/zones/'', Val zid, Lit ''/dns_records'']
              token None [(''type'', JStr t), (''name'', JStr fqdn)] = (Inr js, w1)"
    and r: "py_get js ''result'' JNull = Inr r"
    and cs: "py_or r (JArr []) = JArr cs"
    and many: "2 \<le> length cs" "\<forall>c\<in>set cs. is_record c"
    and tty: "stdin_isatty w"
    and line: "stdin w = line # rest"
    and w2: "w2 = w1\<lparr>stdin := rest, prompts := prompts w1 @ [choose_prompt]\<rparr>"
  shows "(strip line = [] \<longrightarrow>
            find_record w token zid rid name rtype zone_name base = (Inl (Exit NoRecordSelected 0), w2))
       \<and> (strip line \<noteq> [] \<and> find (has_id (strip line)) cs = None \<longrightarrow>
            find_record w token zid rid name rtype zone_name base = (Inl (Exit InvalidRecordId 2), w2))
       \<and> (\<forall>c. strip line \<noteq> [] \<and> find (has_id (strip line)) cs = Some c \<longrightarrow>
            find_record w token zid rid name rtype zone_name base = (Inr (JStr (strip line), c), w2))"
proof -
  have w1: "w1 = w\<lparr>requests := requests w @ [name_type_query token zid t fqdn base]\<rparr>"
    using http_json_worldD [OF q] by (simp add: name_type_query_def)
  have tty1: "stdin_isatty w1" and line1: "stdin w1 = line # rest"
    using tty line by (simp_all add: w1)
  have inp: "py_input w1 choose_prompt = (Inr line, w2)"
    using line1 by (simp add: py_input_def w2)
  have rt: "render_table (JArr cs) = Inr ()"
    using many(2) by (simp add: render_table_def for_each_records)
  have ne: "cs \<noteq> []" "length cs \<noteq> Suc 0" using many(1) by auto
  show ?thesis
    using sel q [unfolded fq] r cs ne tty1 inp rt first_with_id_find [OF many(2)]
    by (auto simp: find_record_def die_def fq Let_def dest: find_has_id_truthy)
qed

theorem find_record_interactive_witness:
  "find_record (demo_world True [blank_line]) ''tok'' (JStr ''z1'') None (Some ''mail'') (Some ''A'')
       ''example.com'' API_BASE
     = (Inl (Exit NoRecordSelected 0),
        (demo_world True [blank_line])
          \<lparr>requests := [name_type_query ''tok'' (JStr ''z1'') ''A'' ''mail.example.com'' API_BASE],
            stdin := [], prompts := [choose_prompt]\<rparr>)
   \<and> find_record (demo_world True [''r9'']) ''tok'' (JStr ''z1'') None (Some ''mail'') (Some ''A'')
       ''example.com'' API_BASE
     = (Inl (Exit InvalidRecordId 2),
        (demo_world True [''r9''])
          \<lparr>requests := [name_type_query ''tok'' (JStr ''z1'') ''A'' ''mail.example.com'' API_BASE],
            stdin := [], prompts := [choose_prompt]\<rparr>)
   \<and> find_record (demo_world True [padded_r3]) ''tok'' (JStr ''z1'') None (Some ''mail'') (Some ''A'')
       ''example.com'' API_BASE
     = (Inr (JStr ''r3'', demo_record ''r3'' ''mail.example.com'' ''1.2.3.6''),
        (demo_world True [padded_r3])
          \<lparr>requests := [name_type_query ''tok'' (JStr ''z1'') ''A'' ''mail.example.com'' API_BASE],
            stdin := [], prompts := [choose_prompt]\<rparr>)"
proof -
  let ?cs = "[demo_record ''r2'' ''mail.example.com'' ''1.2.3.5'',
              demo_record ''r3'' ''mail.example.com'' ''1.2.3.6'']"
  have g: "given (None :: string option) = None" "given (Some ''mail'') = Some ''mail''"
    "given (Some ''A'') = Some ''A''"
    by simp_all
  have f: "''mail.example.com''
             = (if ''example.com'' \<noteq> [] then normalize_name ''example.com'' ''mail'' else ''mail'')"
    by (simp add: normalize_name_def endswith_def suffix_def)
  have q: "\<And>lines. http_json (demo_world True lines) GET
              [Val (JStr API_BASE), Lit ''/zones/'', Val (JStr ''z1''), Lit ''/dns_records''] ''tok'' None
              [(''type'', JStr ''A''), (''name'', JStr ''mail.example.com'')]
            = (Inr (JObj [(''success'', JBool True), (''result'', JArr ?cs),
                          (''result_info'', JObj [(''total_pages'', JInt 1)])]),
               (demo_world True lines)
                 \<lparr>requests := [name_type_query ''tok'' (JStr ''z1'') ''A'' ''mail.example.com'' API_BASE]\<rparr>)"
    by (simp add: demo_name_type_query)
  have get: "py_get (JObj [(''success'', JBool True), (''result'', JArr ?cs),
                           (''result_info'', JObj [(''total_pages'', JInt 1)])]) ''result'' JNull
               = Inr (JArr ?cs)"
    by simp
  have o: "py_or (JArr ?cs) (JArr []) = JArr ?cs" by (simp add: py_or_def)
  have many: "2 \<le> length ?cs" "\<forall>c\<in>set ?cs. is_record c" by (simp_all add: demo_record_def)
  have tty: "\<And>lines. stdin_isatty (demo_world True lines)" by (simp add: demo_world_io)
  have l: "\<And>line. stdin (demo_world True [line]) = line # []" by (simp add: demo_world_io)
  have s: "strip blank_line = []" "strip ''r9'' = ''r9''" "strip padded_r3 = ''r3''"
    by code_simp+
  have fd: "find (has_id ''r9'') ?cs = None"
    "find (has_id ''r3'') ?cs = Some (demo_record ''r3'' ''mail.example.com'' ''1.2.3.6'')"
    by (simp_all add: has_id_def demo_record_def)
  show ?thesis
    using
      find_record_interactive [OF g f q get o many tty l refl, of blank_line]
      find_record_interactive [OF g f q get o many tty l refl, of "''r9''"]
      find_record_interactive [OF g f q get o many tty l refl, of padded_r3]
      s fd
    by (simp add: demo_world_io)
qed

subsection \<open>Confirmation gate\<close>

lemma zone_id_world:
  "zone_id w token zone_name base = (r, w1) \<Longrightarrow>
     w1 = w\<lparr>requests := requests w @ [zone_query token zone_name base]\<rparr>"
  by (auto simp: zone_id_def zone_query_def Let_def
      split: prod.splits sum.splits if_splits dest!: http_json_worldD)

lemma py_input_requests: "py_input w p = (r, w1) \<Longrightarrow> requests w1 = requests w"
  by (auto simp: py_input_def split: list.splits)

lemma find_record_requests:
  assumes "find_record w token zid rid name rtype zone_name base = (r, w1)"
  shows "requests w1 = requests w \<or> (\<exists>g. req_method g = GET \<and> requests w1 = requests w @ [g])"
proof (cases "given rid")
  case (Some rid')
  then show ?thesis
    using assms
    by (auto simp: find_record_def make_request_def split: prod.splits sum.splits dest!: http_json_worldD)
next
  case None
  show ?thesis
  proof (cases "given name")
    case n: None
    then show ?thesis using assms None
      by (auto simp: find_record_def make_request_def)
  next
    case n: (Some name')
    show ?thesis
    proof (cases "given rtype")
      case t: None
      then show ?thesis using assms None n
        by (auto simp: find_record_def make_request_def)
    next
      case t: (Some rtype')
      show ?thesis using assms None n t
        by (auto simp: find_record_def make_request_def Let_def
            split: prod.splits sum.splits if_splits
            dest!: http_json_worldD py_input_requests)
    qed
  qed
qed

lemma find_record_mutating:
  "find_record w token zid rid name rtype zone_name base = (r, w1) \<Longrightarrow>
     filter mutating (requests w1) = filter mutating (requests w)"
  by (drule find_record_requests) (auto simp: mutating_def)

lemma zone_id_mutating:
  "zone_id w token zone_name base = (r, w1) \<Longrightarrow>
     filter mutating (requests w1) = filter mutating (requests w)"
  by (drule zone_id_world) (simp add: mutating_def zone_query_def make_request_def)

lemma confirm_yes: "confirm w p True = (Inr (), w)"
  by (simp add: confirm_def)

lemma confirm_no:
  "stdin w = a # rest \<Longrightarrow> \<not> affirmative a \<Longrightarrow>
     confirm w ''Proceed?'' False
       = (Inl (Exit Aborted 0), w\<lparr>stdin := rest, prompts := prompts w @ [confirm_prompt]\<rparr>)"
  by (simp add: confirm_def py_input_def affirmative_def confirm_prompt_def)

text \<open>An answer is read with the whitespace around it removed, U+00A0 included.\<close>

lemma affirmative_stripped: "affirmative (''Yes'' @ [nbsp])" "\<not> affirmative (''n'' @ [nbsp])"
  by code_simp+

lemma is_record_get: "is_record c \<Longrightarrow> \<exists>v. py_get c k d = Inr v"
  by (cases c) auto

lemma cmd_add_yes:
  assumes "zone_id w token zone base = (Inr zid, w1)"
    and "build_payload (JStr (normalize_name zone name)) (JStr (upper rtype)) (JStr content)
           (of_ttl ttl) (of_proxied proxied) = Inr payload"
  shows "requests (snd (cmd_add w token zone name rtype content ttl proxied True base))
           = requests w1 @ [create_request token zid payload base]
       \<and> prompts (snd (cmd_add w token zone name rtype content ttl proxied True base)) = prompts w1"
  using assms
    http_json_world [of w1 POST "[Val (JStr base), Lit ''/zones/'', Val zid, Lit ''/dns_records'']"
      token "Some payload" "[]"]
  by (auto simp: cmd_add_def Let_def confirm_yes create_request_def split: prod.splits sum.splits)

lemma cmd_add_no:
  assumes "zone_id w token zone base = (Inr zid, w1)"
    and "build_payload (JStr (normalize_name zone name)) (JStr (upper rtype)) (JStr content)
           (of_ttl ttl) (of_proxied proxied) = Inr payload"
    and "stdin w1 = a # rest" "\<not> affirmative a"
  shows "cmd_add w token zone name rtype content ttl proxied False base
           = (Inl (Exit Aborted 0), w1\<lparr>stdin := rest, prompts := prompts w1 @ [confirm_prompt]\<rparr>)"
  using assms by (simp add: cmd_add_def Let_def confirm_no)

lemma cmd_update_yes:
  assumes "zone_id w token zone base = (Inr zid, w1)"
    and "find_record w1 token zid rid name (map_option upper (given rtype)) zone base
           = (Inr (rid', current), w2)"
    and "update_payload zone name (map_option upper (given rtype)) content ttl proxied current
           = Inr payload"
    and "is_record current"
  shows "requests (snd (cmd_update w token zone rid name rtype content ttl proxied True base))
           = requests w2 @ [update_request token zid rid' payload base]
       \<and> prompts (snd (cmd_update w token zone rid name rtype content ttl proxied True base))
           = prompts w2"
  using assms is_record_get [OF assms(4), of "''type''" JNull]
    http_json_world [of w2 PUT
      "[Val (JStr base), Lit ''/zones/'', Val zid, Lit ''/dns_records/'', Val rid']" token "Some payload" "[]"]
  by (auto simp: cmd_update_def Let_def confirm_yes update_request_def split: prod.splits sum.splits)

lemma cmd_update_no:
  assumes "zone_id w token zone base = (Inr zid, w1)"
    and "find_record w1 token zid rid name (map_option upper (given rtype)) zone base
           = (Inr (rid', current), w2)"
    and "update_payload zone name (map_option upper (given rtype)) content ttl proxied current
           = Inr payload"
    and "is_record current"
    and "stdin w2 = a # rest" "\<not> affirmative a"
  shows "cmd_update w token zone rid name rtype content ttl proxied False base
           = (Inl (Exit Aborted 0), w2\<lparr>stdin := rest, prompts := prompts w2 @ [confirm_prompt]\<rparr>)"
  using assms is_record_get [OF assms(4), of "''type''" JNull]
  by (auto simp: cmd_update_def Let_def confirm_no)

lemma cmd_delete_yes:
  assumes "zone_id w token zone base = (Inr zid, w1)"
    and "find_record w1 token zid rid name (map_option upper (given rtype)) zone base
           = (Inr (rid', current), w2)"
    and "is_record current"
  shows "requests (snd (cmd_delete w token zone rid name rtype True base))
           = requests w2 @ [delete_request token zid rid' base]
       \<and> prompts (snd (cmd_delete w token zone rid name rtype True base)) = prompts w2"
  using assms is_record_get [OF assms(3), of "''type''" JNull]
    http_json_world [of w2 DELETE
      "[Val (JStr base), Lit ''/zones/'', Val zid, Lit ''/dns_records/'', Val rid']" token None "[]"]
  by (auto simp: cmd_delete_def Let_def confirm_yes delete_request_def split: prod.splits sum.splits)

lemma cmd_delete_no:
  assumes "zone_id w token zone base = (Inr zid, w1)"
    and "find_record w1 token zid rid name (map_option upper (given rtype)) zone base
           = (Inr (rid', current), w2)"
    and "is_record current"
    and "stdin w2 = a # rest" "\<not> affirmative a"
  shows "cmd_delete w token zone rid name rtype False base
           = (Inl (Exit Aborted 0), w2\<lparr>stdin := rest, prompts := prompts w2 @ [confirm_prompt]\<rparr>)"
  using assms is_record_get [OF assms(3), of "''type''" JNull]
  by (auto simp: cmd_delete_def Let_def confirm_no)

text \<open>
  C4. The gate in the three mutating commands. Let the record type on the command line
  be ASCII text, and let the steps before the gate succeed: the zone is resolved, for
  \<open>update\<close> and \<open>delete\<close> the record is resolved to a JSON object, and for \<open>add\<close> and
  \<open>update\<close> the payload is built; \<open>w1\<close> (for \<open>add\<close>) and \<open>w2\<close> (for \<open>update\<close> and
  \<open>delete\<close>) are the worlds reached at that point.
  \<^item> With \<open>--yes\<close> the command goes on to make its mutating request, the next request
    after those of the earlier steps, and the gate has shown no prompt.
  \<^item> Without \<open>--yes\<close>, when the line read at the prompt is not affirmative (stripped and
    lower-cased, neither \<open>y\<close> nor \<open>yes\<close>), the command ends there with exit code 0 and
    the message \<open>Aborted.\<close>: the world is the one reached before the gate, with the
    prompt shown and the line read. No request follows the answer, and the requests made
    before it are not mutating.
\<close>

theorem confirmation_gate:
  "(\<forall>zid w1 payload.
      is_ascii rtype
      \<and> zone_id w token zone base = (Inr zid, w1)
      \<and> build_payload (JStr (normalize_name zone name)) (JStr (upper rtype)) (JStr content)
           (of_ttl ttl) (of_proxied proxied) = Inr payload
      \<longrightarrow>
        requests (snd (cmd_add w token zone name rtype content ttl proxied True base))
          = requests w1 @ [create_request token zid payload base]
        \<and> prompts (snd (cmd_add w token zone name rtype content ttl proxied True base)) = prompts w1
        \<and> (\<forall>a rest. stdin w1 = a # rest \<and> \<not> affirmative a \<longrightarrow>
              cmd_add w token zone name rtype content ttl proxied False base
                = (Inl (Exit Aborted 0), w1\<lparr>stdin := rest, prompts := prompts w1 @ [confirm_prompt]\<rparr>)
              \<and> filter mutating (requests w1) = filter mutating (requests w)))
   \<and> (\<forall>zid w1 rid' current w2 payload.
        (case otype of None \<Rightarrow> True | Some t \<Rightarrow> is_ascii t)
        \<and> zone_id w token zone base = (Inr zid, w1)
        \<and> find_record w1 token zid rid oname (map_option upper (given otype)) zone base
             = (Inr (rid', current), w2)
        \<and> is_record current
        \<and> update_payload zone oname (map_option upper (given otype)) ocontent ttl proxied current
             = Inr payload
        \<longrightarrow>
          requests (snd (cmd_update w token zone rid oname otype ocontent ttl proxied True base))
            = requests w2 @ [update_request token zid rid' payload base]
          \<and> prompts (snd (cmd_update w token zone rid oname otype ocontent ttl proxied True base))
              = prompts w2
          \<and> (\<forall>a rest. stdin w2 = a # rest \<and> \<not> affirmative a \<longrightarrow>
                cmd_update w token zone rid oname otype ocontent ttl proxied False base
                  = (Inl (Exit Aborted 0), w2\<lparr>stdin := rest, prompts := prompts w2 @ [confirm_prompt]\<rparr>)
                \<and> filter mutating (requests w2) = filter mutating (requests w)))
   \<and> (\<forall>zid w1 rid' current w2.
        (case otype of None \<Rightarrow> True | Some t \<Rightarrow> is_ascii t)
        \<and> zone_id w token zone base = (Inr zid, w1)
        \<and> find_record w1 token zid rid oname (map_option upper (given otype)) zone base
             = (Inr (rid', current), w2)
        \<and> is_record current
        \<longrightarrow>
          requests (snd (cmd_delete w token zone rid oname otype True base))
            = requests w2 @ [delete_request token zid rid' base]
          \<and> prompts (snd (cmd_delete w token zone rid oname otype True base)) = prompts w2
          \<and> (\<forall>a rest. stdin w2 = a # rest \<and> \<not> affirmative a \<longrightarrow>
                cmd_delete w token zone rid oname otype False base
                  = (Inl (Exit Aborted 0), w2\<lparr>stdin := rest, prompts := prompts w2 @ [confirm_prompt]\<rparr>)
                \<and> filter mutating (requests w2) = filter mutating (requests w)))"
proof (intro conjI allI impI; (elim conjE)?)
  fix zid w1 payload
  assume z: "zone_id w token zone base = (Inr zid, w1)"
    and p: "build_payload (JStr (normalize_name zone name)) (JStr (upper rtype)) (JStr content)
              (of_ttl ttl) (of_proxied proxied) = Inr payload"
  show "requests (snd (cmd_add w token zone name rtype content ttl proxied True base))
          = requests w1 @ [create_request token zid payload base]"
    and "prompts (snd (cmd_add w token zone name rtype content ttl proxied True base)) = prompts w1"
    using cmd_add_yes [OF z p] by simp_all
  show "filter mutating (requests w1) = filter mutating (requests w)"
    by (rule zone_id_mutating [OF z])
  fix a rest
  assume "stdin w1 = a # rest" "\<not> affirmative a"
  then show "cmd_add w token zone name rtype content ttl proxied False base
      = (Inl (Exit Aborted 0), w1\<lparr>stdin := rest, prompts := prompts w1 @ [confirm_prompt]\<rparr>)"
    by (rule cmd_add_no [OF z p])
next
  fix zid w1 rid' current w2 payload
  assume z: "zone_id w token zone base = (Inr zid, w1)"
    and f: "find_record w1 token zid rid oname (map_option upper (given otype)) zone base
              = (Inr (rid', current), w2)"
    and c: "is_record current"
    and p: "update_payload zone oname (map_option upper (given otype)) ocontent ttl proxied current
              = Inr payload"
  show "requests (snd (cmd_update w token zone rid oname otype ocontent ttl proxied True base))
          = requests w2 @ [update_request token zid rid' payload base]"
    and "prompts (snd (cmd_update w token zone rid oname otype ocontent ttl proxied True base))
          = prompts w2"
    using cmd_update_yes [OF z f p c] by simp_all
  show "filter mutating (requests w2) = filter mutating (requests w)"
    using zone_id_mutating [OF z] find_record_mutating [OF f] by simp
  fix a rest
  assume "stdin w2 = a # rest" "\<not> affirmative a"
  then show "cmd_update w token zone rid oname otype ocontent ttl proxied False base
      = (Inl (Exit Aborted 0), w2\<lparr>stdin := rest, prompts := prompts w2 @ [confirm_prompt]\<rparr>)"
    by (rule cmd_update_no [OF z f p c])
next
  fix zid w1 rid' current w2
  assume z: "zone_id w token zone base = (Inr zid, w1)"
    and f: "find_record w1 token zid rid oname (map_option upper (given otype)) zone base
              = (Inr (rid', current), w2)"
    and c: "is_record current"
  show "requests (snd (cmd_delete w token zone rid oname otype True base))
          = requests w2 @ [delete_request token zid rid' base]"
    and "prompts (snd (cmd_delete w token zone rid oname otype True base)) = prompts w2"
    using cmd_delete_yes [OF z f c] by simp_all
  show "filter mutating (requests w2) = filter mutating (requests w)"
    using zone_id_mutating [OF z] find_record_mutating [OF f] by simp
  fix a rest
  assume "stdin w2 = a # rest" "\<not> affirmative a"
  then show "cmd_delete w token zone rid oname otype False base
      = (Inl (Exit Aborted 0), w2\<lparr>stdin := rest, prompts := prompts w2 @ [confirm_prompt]\<rparr>)"
    by (rule cmd_delete_no [OF z f c])
qed

lemma demo_zone_id:
  "server w = demo_server \<Longrightarrow>
     zone_id w token ''example.com'' base
       = (Inr (JStr ''z1''), w\<lparr>requests := requests w @ [zone_query token ''example.com'' base]\<rparr>)"
  by (simp add: zone_id_def http_json_def demo_server_def make_request_def success_def
      zone_query_def py_or_def demo_zone_def)

lemma demo_find_r1:
  "server w = demo_server \<Longrightarrow>
     find_record w token zid (Some ''r1'') name rtype zone_name base
       = (Inr (JStr ''r1'', demo_record ''r1'' ''www.example.com'' ''1.2.3.4''),
          w\<lparr>requests := requests w @ [fetch_by_id token zid ''r1'' base]\<rparr>)"
  by (simp add: find_record_def http_json_def demo_server_def make_request_def success_def
      fetch_by_id_def)

lemma demo_find_www:
  "server w = demo_server \<Longrightarrow>
     find_record w token zid None (Some ''www'') (Some ''A'') ''example.com'' base
       = (Inr (JStr ''r1'', demo_record ''r1'' ''www.example.com'' ''1.2.3.4''),
          w\<lparr>requests := requests w @ [name_type_query token zid ''A'' ''www.example.com'' base]\<rparr>)"
  by (simp add: find_record_def http_json_def demo_server_def make_request_def success_def
      name_type_query_def py_or_def normalize_name_def endswith_def suffix_def demo_record_def Let_def)

lemma demo_server: "server (demo_world tty lines) = demo_server"
  by (simp add: demo_world_def init_world_def)

lemma upper_a: "upper ''a'' = ''A''" "upper ''A'' = ''A''"
  by code_simp+

lemma not_affirmative_n: "\<not> affirmative ''n''"
  by code_simp

theorem confirmation_gate_witness:
  "requests (snd (cmd_add (demo_world False [''n'']) ''tok'' ''example.com'' ''www'' ''a''
                    ''203.0.113.10'' (Some 300) (Some True) True API_BASE))
     = [zone_query ''tok'' ''example.com'' API_BASE,
        create_request ''tok'' (JStr ''z1'')
          (JObj [(''type'', JStr ''A''), (''name'', JStr ''www.example.com''),
                 (''content'', JStr ''203.0.113.10''), (''ttl'', JInt 300), (''proxied'', JBool True)])
          API_BASE]
   \<and> prompts (snd (cmd_add (demo_world False [''n'']) ''tok'' ''example.com'' ''www'' ''a''
                    ''203.0.113.10'' (Some 300) (Some True) True API_BASE)) = []
   \<and> cmd_add (demo_world False [''n'']) ''tok'' ''example.com'' ''www'' ''a''
        ''203.0.113.10'' (Some 300) (Some True) False API_BASE
     = (Inl (Exit Aborted 0),
        (demo_world False [''n''])
          \<lparr>requests := [zone_query ''tok'' ''example.com'' API_BASE],
            stdin := [], prompts := [confirm_prompt]\<rparr>)
   \<and> requests (snd (cmd_update (demo_world False [''n'']) ''tok'' ''example.com'' (Some ''r1'') None None
                    (Some ''5.6.7.8'') None None True API_BASE))
     = [zone_query ''tok'' ''example.com'' API_BASE,
        fetch_by_id ''tok'' (JStr ''z1'') ''r1'' API_BASE,
        update_request ''tok'' (JStr ''z1'') (JStr ''r1'')
          (JObj [(''type'', JStr ''A''), (''name'', JStr ''www.example.com''),
                 (''content'', JStr ''5.6.7.8''), (''ttl'', JInt 300), (''proxied'', JBool True)])
          API_BASE]
   \<and> cmd_update (demo_world False [''n'']) ''tok'' ''example.com'' (Some ''r1'') None None
        (Some ''5.6.7.8'') None None False API_BASE
     = (Inl (Exit Aborted 0),
        (demo_world False [''n''])
          \<lparr>requests := [zone_query ''tok'' ''example.com'' API_BASE,
                          fetch_by_id ''tok'' (JStr ''z1'') ''r1'' API_BASE],
            stdin := [], prompts := [confirm_prompt]\<rparr>)
   \<and> requests (snd (cmd_delete (demo_world False [''n'']) ''tok'' ''example.com'' None (Some ''www'')
                    (Some ''a'') True API_BASE))
     = [zone_query ''tok'' ''example.com'' API_BASE,
        name_type_query ''tok'' (JStr ''z1'') ''A'' ''www.example.com'' API_BASE,
        delete_request ''tok'' (JStr ''z1'') (JStr ''r1'') API_BASE]
   \<and> cmd_delete (demo_world False [''n'']) ''tok'' ''example.com'' None (Some ''www'')
        (Some ''a'') False API_BASE
     = (Inl (Exit Aborted 0),
        (demo_world False [''n''])
          \<lparr>requests := [zone_query ''tok'' ''example.com'' API_BASE,
                          name_type_query ''tok'' (JStr ''z1'') ''A'' ''www.example.com'' API_BASE],
            stdin := [], prompts := [confirm_prompt]\<rparr>)"
proof -
  let ?w = "demo_world False [''n'']"
  let ?w1 = "?w\<lparr>requests := requests ?w @ [zone_query ''tok'' ''example.com'' API_BASE]\<rparr>"
  let ?wi = "?w1\<lparr>requests := requests ?w1 @ [fetch_by_id ''tok'' (JStr ''z1'') ''r1'' API_BASE]\<rparr>"
  let ?wn = "?w1\<lparr>requests := requests ?w1
                 @ [name_type_query ''tok'' (JStr ''z1'') ''A'' ''www.example.com'' API_BASE]\<rparr>"
  let ?r1 = "demo_record ''r1'' ''www.example.com'' ''1.2.3.4''"
  have z: "zone_id ?w ''tok'' ''example.com'' API_BASE = (Inr (JStr ''z1''), ?w1)"
    by (rule demo_zone_id [OF demo_server])
  have s1: "server ?w1 = demo_server" by (simp add: demo_server)
  have pa: "build_payload (JStr (normalize_name ''example.com'' ''www'')) (JStr (upper ''a''))
              (JStr ''203.0.113.10'') (of_ttl (Some 300)) (of_proxied (Some True))
            = Inr (JObj [(''type'', JStr ''A''), (''name'', JStr ''www.example.com''),
                         (''content'', JStr ''203.0.113.10''), (''ttl'', JInt 300),
                         (''proxied'', JBool True)])"
    by (simp add: build_payload_def upper_a normalize_name_def endswith_def suffix_def)
  have fi: "find_record ?w1 ''tok'' (JStr ''z1'') (Some ''r1'') None (map_option upper (given None))
              ''example.com'' API_BASE = (Inr (JStr ''r1'', ?r1), ?wi)"
    by (rule demo_find_r1 [OF s1])
  have fn: "find_record ?w1 ''tok'' (JStr ''z1'') None (Some ''www'')
              (map_option upper (given (Some ''a''))) ''example.com'' API_BASE
            = (Inr (JStr ''r1'', ?r1), ?wn)"
    using demo_find_www [OF s1] by (simp add: upper_a)
  have rec: "is_record ?r1" by (simp add: demo_record_def)
  have pu: "update_payload ''example.com'' None (map_option upper (given None)) (Some ''5.6.7.8'')
              None None ?r1
            = Inr (JObj [(''type'', JStr ''A''), (''name'', JStr ''www.example.com''),
                         (''content'', JStr ''5.6.7.8''), (''ttl'', JInt 300),
                         (''proxied'', JBool True)])"
    by (simp add: update_payload_def build_payload_def demo_record_def)
  have i1: "stdin ?w1 = ''n'' # []" "stdin ?wi = ''n'' # []" "stdin ?wn = ''n'' # []"
    by (simp_all add: demo_world_io)
  have asc: "is_ascii ''a''" "case None of None \<Rightarrow> True | Some t \<Rightarrow> is_ascii t"
    "case Some ''a'' of None \<Rightarrow> True | Some t \<Rightarrow> is_ascii t"
    by (simp_all add: is_ascii_def)
  note gate_add = confirmation_gate [where w = ?w and token = "''tok''" and zone = "''example.com''"
      and base = API_BASE and name = "''www''" and rtype = "''a''" and content = "''203.0.113.10''"
      and ttl = "Some 300" and proxied = "Some True", THEN conjunct1, rule_format,
      OF conjI [OF asc(1) conjI [OF z pa]]]
  note gate_update = confirmation_gate [where w = ?w and token = "''tok''" and zone = "''example.com''"
      and base = API_BASE and rid = "Some ''r1''" and oname = None and otype = None
      and ocontent = "Some ''5.6.7.8''" and ttl = None and proxied = None,
      THEN conjunct2, THEN conjunct1, rule_format,
      OF conjI [OF asc(2) conjI [OF z conjI [OF fi conjI [OF rec pu]]]]]
  note gate_delete = confirmation_gate [where w = ?w and token = "''tok''" and zone = "''example.com''"
      and base = API_BASE and rid = None and oname = "Some ''www''" and otype = "Some ''a''",
      THEN conjunct2, THEN conjunct2, rule_format,
      OF conjI [OF asc(3) conjI [OF z conjI [OF fn rec]]]]
  note no = gate_add [THEN conjunct2, THEN conjunct2, rule_format, OF conjI [OF i1(1) not_affirmative_n]]
    gate_update [THEN conjunct2, THEN conjunct2, rule_format, OF conjI [OF i1(2) not_affirmative_n]]
    gate_delete [THEN conjunct2, THEN conjunct2, rule_format, OF conjI [OF i1(3) not_affirmative_n]]
  show ?thesis
    using gate_add [THEN conjunct1] gate_add [THEN conjunct2, THEN conjunct1]
      gate_update [THEN conjunct1] gate_delete [THEN conjunct1] no
    by (simp add: demo_requests demo_world_io)
qed

subsection \<open>Update merge\<close>









subsection \<open>Where pages are walked\<close>

lemma find_record_name_type_requests:
  assumes "given rid = None" "given name = Some n" "given rtype = Some t"
  shows "requests (snd (find_record w token zid rid name rtype zone_name base))
           = requests w @ [name_type_query token zid t
                             (if zone_name \<noteq> [] then normalize_name zone_name n else n) base]"
proof -
  obtain r w1 where run: "find_record w token zid rid name rtype zone_name base = (r, w1)"
    by (cases "find_record w token zid rid name rtype zone_name base")
  from run assms have "requests w1 = requests w @ [name_type_query token zid t
                             (if zone_name \<noteq> [] then normalize_name zone_name n else n) base]"
    by (auto simp: find_record_def name_type_query_def Let_def
        split: prod.splits sum.splits if_splits
        dest!: http_json_worldD py_input_requests)
  with run show ?thesis by simp
qed

lemma zones_loop_pages:
  assumes pages: "\<forall>i\<in>{1..k}. \<forall>hist. lists_page (srv hist (zones_page token base i)) (items i) k"
    and rows: "\<forall>i\<in>{1..k}. \<forall>z\<in>set (items i). zone_row z = Inr ()"
  shows "n = nat (k - p) \<Longrightarrow> 1 \<le> p \<Longrightarrow> p \<le> k \<Longrightarrow> server w = srv \<Longrightarrow>
         zones_loop w token base p 50
           = Some (Inr (), w\<lparr>requests := requests w @ map (zones_page token base) [p..k]\<rparr>)"
proof (induction n arbitrary: p w)
  case 0
  then have pk: "p = k" by simp
  have lp: "lists_page (server w (requests w)
              (make_request GET [Val (JStr base), Lit ''/zones''] token None
                 [(''page'', JInt k), (''per_page'', JInt 50)])) (items k) k"
    using pages 0 pk by (simp add: zones_page_def)
  have fe: "for_each zone_row (items k) = Inr ()"
    using rows 0 pk by (intro for_each_ok) auto
  from lp show ?case
    apply (rule http_json_lists_page)
    apply (subst zones_loop.simps)
    apply (simp add: pk fe zones_page_def)
    done
next
  case (Suc n)
  then have lt: "p < k" and n: "n = nat (k - (p + 1))" by auto
  have lp: "lists_page (server w (requests w)
              (make_request GET [Val (JStr base), Lit ''/zones''] token None
                 [(''page'', JInt p), (''per_page'', JInt 50)])) (items p) k"
    using pages Suc.prems by (simp add: zones_page_def)
  have fe: "for_each zone_row (items p) = Inr ()"
    using rows Suc.prems by (intro for_each_ok) auto
  let ?w1 = "w\<lparr>requests := requests w @ [zones_page token base p]\<rparr>"
  have IH: "zones_loop ?w1 token base (p + 1) 50
           = Some (Inr (), ?w1\<lparr>requests := requests ?w1 @ map (zones_page token base) [p + 1..k]\<rparr>)"
    using Suc.prems lt by (intro Suc.IH [OF n]) auto
  have up: "[p..k] = p # [p + 1..k]" using lt by (simp add: upto_rec1)
  from lp show ?case
    apply (rule http_json_lists_page)
    apply (subst zones_loop.simps)
    using lt IH
    apply (simp add: fe zones_page_def up)
    done
qed

text \<open>
  C8, as stated, fails. The example server answers the filtered query for
  \<open>www.example.com\<close> with one record and \<open>total_pages = 2\<close>. Resolution by name and
  type makes that one request and returns the record: no second page is asked for, and
  no request of the record lister is made.
\<close>

theorem resolution_paging_counterexample:
  "lists_page
     (demo_server [] (name_type_query ''tok'' (JStr ''z1'') ''A'' ''www.example.com'' API_BASE))
     [demo_record ''r1'' ''www.example.com'' ''1.2.3.4''] 2
   \<and> find_record (demo_world False []) ''tok'' (JStr ''z1'') None (Some ''www'') (Some ''A'')
       ''example.com'' API_BASE
     = (Inr (JStr ''r1'', demo_record ''r1'' ''www.example.com'' ''1.2.3.4''),
        (demo_world False [])
          \<lparr>requests := [name_type_query ''tok'' (JStr ''z1'') ''A'' ''www.example.com'' API_BASE]\<rparr>)
   \<and> name_type_query ''tok'' (JStr ''z1'') ''A'' ''www.example.com'' API_BASE
       \<noteq> records_page ''tok'' (JStr ''z1'') (Some ''A'') API_BASE 1"
proof -
  have "lists_page
     (demo_server [] (name_type_query ''tok'' (JStr ''z1'') ''A'' ''www.example.com'' API_BASE))
     [demo_record ''r1'' ''www.example.com'' ''1.2.3.4''] 2"
    by (simp add: lists_page_def demo_server_def name_type_query_def make_request_def success_def)
  moreover have "find_record (demo_world False []) ''tok'' (JStr ''z1'') None (Some ''www'') (Some ''A'')
       ''example.com'' API_BASE
     = (Inr (JStr ''r1'', demo_record ''r1'' ''www.example.com'' ''1.2.3.4''),
        (demo_world False [])
          \<lparr>requests := [name_type_query ''tok'' (JStr ''z1'') ''A'' ''www.example.com'' API_BASE]\<rparr>)"
    using demo_find_www [OF demo_server, of False "[]"] by (simp add: demo_requests)
  moreover have "name_type_query ''tok'' (JStr ''z1'') ''A'' ''www.example.com'' API_BASE
       \<noteq> records_page ''tok'' (JStr ''z1'') (Some ''A'') API_BASE 1"
    by (simp add: name_type_query_def records_page_def make_request_def)
  ultimately show ?thesis by simp
qed

lemma name_filter_records:
  "\<forall>r\<in>set rs. is_record r \<Longrightarrow>
     name_filter str_of needle rs
       = Inr (filter (\<lambda>r. case shown_name str_of r of Inr text \<Rightarrow> sublist needle text | Inl e \<Rightarrow> False) rs)"
proof (induction rs)
  case Nil
  then show ?case by simp
next
  case (Cons r rs)
  then obtain kvs where "r = JObj kvs" by (cases r) auto
  with Cons show ?case by (simp add: shown_name_def)
qed

lemma cmd_list_pages:
  assumes z: "zone_id w token zone base = (Inr zid, w1)"
    and k: "1 \<le> k"
    and pages: "\<forall>i\<in>{1..k}. \<forall>hist.
                  lists_page (server w hist (records_page token zid ltype base i)) (items i) k"
    and recs: "\<forall>i\<in>{1..k}. \<forall>r\<in>set (items i). is_record r"
  shows "cmd_list str_of w token zone ltype name_substr as_json base
           = Some (Inr (case given name_substr of
                          None \<Rightarrow> concat (map items [1..k])
                        | Some s \<Rightarrow>
                            filter (\<lambda>r. case shown_name str_of r of
                                           Inr text \<Rightarrow> sublist (lower s) text
                                         | Inl e \<Rightarrow> False)
                              (concat (map items [1..k]))),
                   w1\<lparr>requests := requests w1 @ map (records_page token zid ltype base) [1..k]\<rparr>)"
proof -
  have srv: "server w1 = server w" using zone_id_world [OF z] by simp
  have pg: "paginate_records w1 token zid ltype base
              = Some (Inr (concat (map items [1..k])),
                      w1\<lparr>requests := requests w1 @ map (records_page token zid ltype base) [1..k]\<rparr>)"
    using paginate_loop_pages [OF pages refl _ k srv, of "[]"] k by (simp add: paginate_records_def)
  have all: "\<forall>r\<in>set (concat (map items [1..k])). is_record r" using recs by auto
  show ?thesis
  proof (cases "given name_substr")
    case None
    then show ?thesis
      using z pg all by (simp add: cmd_list_def render_table_def for_each_records)
  next
    case (Some s)
    have "\<forall>r\<in>set (filter (\<lambda>r. case shown_name str_of r of
                                 Inr text \<Rightarrow> sublist (lower s) text | Inl e \<Rightarrow> False)
                      (concat (map items [1..k]))). is_record r"
      using all by auto
    then show ?thesis
      using z pg Some name_filter_records [OF all, of str_of "lower s"]
      by (simp add: cmd_list_def render_table_def for_each_records)
  qed
qed

text \<open>
  C8, amended. The list command obtains the full record set of a zone through the
  record lister: for a record listing that answers pages 1 to \<open>k\<close> with \<open>total_pages =
  k\<close>, it makes the zone query and then the lister's requests for pages 1 to \<open>k\<close>, and
  what it prints is the concatenation of the pages, filtered by name afterwards when a
  name filter is given. Resolution by name and type is not served by the lister:
  whatever the server answers, and whatever page count the answer reports,
  \<open>find_record\<close> makes exactly one request, the query filtered by type and name, and takes
  its candidates from that answer. The zones command has a page loop of its own: for a
  zone listing that answers pages 1 to \<open>k\<close> with \<open>total_pages = k\<close> and rows it can
  print, it returns having requested pages 1 to \<open>k\<close> in order with \<open>per_page = 50\<close>.
\<close>

theorem resolution_single_query:
  "(\<forall>zid w1.
      zone_id w token zone base = (Inr zid, w1)
      \<and> 1 \<le> k
      \<and> (\<forall>i\<in>{1..k}. \<forall>hist.
            lists_page (server w hist (records_page token zid ltype base i)) (recs i) k)
      \<and> (\<forall>i\<in>{1..k}. \<forall>r\<in>set (recs i). is_record r)
      \<longrightarrow> cmd_list str_of w token zone ltype name_substr as_json base
            = Some (Inr (case given name_substr of
                           None \<Rightarrow> concat (map recs [1..k])
                         | Some s \<Rightarrow>
                             filter (\<lambda>r. case shown_name str_of r of
                                            Inr text \<Rightarrow> sublist (lower s) text
                                          | Inl e \<Rightarrow> False)
                               (concat (map recs [1..k]))),
                    w1\<lparr>requests := requests w1 @ map (records_page token zid ltype base) [1..k]\<rparr>))
   \<and> (given rid = None \<and> given name = Some n \<and> given rtype = Some t \<longrightarrow>
      requests (snd (find_record w token zid' rid name rtype zone_name base))
        = requests w @ [name_type_query token zid' t
                          (if zone_name \<noteq> [] then normalize_name zone_name n else n) base])
   \<and> (1 \<le> k
       \<and> (\<forall>i\<in>{1..k}. \<forall>hist. lists_page (server w hist (zones_page token base i)) (items i) k)
       \<and> (\<forall>i\<in>{1..k}. \<forall>z\<in>set (items i). zone_row z = Inr ())
       \<longrightarrow> cmd_zones w token base
             = Some (Inr (), w\<lparr>requests := requests w @ map (zones_page token base) [1..k]\<rparr>))"
proof (intro conjI allI impI; (elim conjE)?)
  fix zid w1
  assume "zone_id w token zone base = (Inr zid, w1)" "1 \<le> k"
    "\<forall>i\<in>{1..k}. \<forall>hist. lists_page (server w hist (records_page token zid ltype base i)) (recs i) k"
    "\<forall>i\<in>{1..k}. \<forall>r\<in>set (recs i). is_record r"
  then show "cmd_list str_of w token zone ltype name_substr as_json base
            = Some (Inr (case given name_substr of
                           None \<Rightarrow> concat (map recs [1..k])
                         | Some s \<Rightarrow>
                             filter (\<lambda>r. case shown_name str_of r of
                                            Inr text \<Rightarrow> sublist (lower s) text
                                          | Inl e \<Rightarrow> False)
                               (concat (map recs [1..k]))),
                    w1\<lparr>requests := requests w1 @ map (records_page token zid ltype base) [1..k]\<rparr>)"
    by (rule cmd_list_pages)
next
  assume "given rid = None" "given name = Some n" "given rtype = Some t"
  then show "requests (snd (find_record w token zid' rid name rtype zone_name base))
        = requests w @ [name_type_query token zid' t
                          (if zone_name \<noteq> [] then normalize_name zone_name n else n) base]"
    by (rule find_record_name_type_requests)
next
  assume k: "1 \<le> k"
    and pages: "\<forall>i\<in>{1..k}. \<forall>hist. lists_page (server w hist (zones_page token base i)) (items i) k"
    and rows: "\<forall>i\<in>{1..k}. \<forall>z\<in>set (items i). zone_row z = Inr ()"
  show "cmd_zones w token base
          = Some (Inr (), w\<lparr>requests := requests w @ map (zones_page token base) [1..k]\<rparr>)"
    using zones_loop_pages [OF pages rows refl _ k refl] k by (simp add: cmd_zones_def)
qed

theorem resolution_single_query_witness:
  "cmd_list (\<lambda>v. []) (demo_world False []) ''tok'' ''example.com'' None (Some ''MAIL'') False API_BASE
     = Some (Inr [demo_record ''r2'' ''mail.example.com'' ''1.2.3.5'',
                  demo_record ''r3'' ''mail.example.com'' ''1.2.3.6''],
             (demo_world False [])
               \<lparr>requests := zone_query ''tok'' ''example.com'' API_BASE
                              # map (records_page ''tok'' (JStr ''z1'') None API_BASE) [1, 2, 3]\<rparr>)
   \<and> requests (snd (find_record (demo_world True [''r3'']) ''tok'' (JStr ''z1'') None (Some ''mail'')
                    (Some ''A'') ''example.com'' API_BASE))
     = [name_type_query ''tok'' (JStr ''z1'') ''A'' ''mail.example.com'' API_BASE]
   \<and> cmd_zones (demo_world False []) ''tok'' API_BASE
     = Some (Inr (), (demo_world False [])\<lparr>requests := map (zones_page ''tok'' API_BASE) [1, 2]\<rparr>)"
proof -
  let ?w = "demo_world False []"
  have z: "zone_id ?w ''tok'' ''example.com'' API_BASE
             = (Inr (JStr ''z1''),
                ?w\<lparr>requests := requests ?w @ [zone_query ''tok'' ''example.com'' API_BASE]\<rparr>)"
    by (rule demo_zone_id [OF demo_server])
  have k3: "(1::int) \<le> 3" by simp
  have recs: "\<forall>i\<in>{1..3::int}. \<forall>r\<in>set (demo_page i). is_record r"
    by (simp add: demo_page_def demo_record_def)
  have g: "given (None :: string option) = None \<and> given (Some ''mail'') = Some ''mail''
           \<and> given (Some ''A'') = Some ''A''"
    by simp
  have k: "(1::int) \<le> 2" by simp
  have pages: "\<forall>i\<in>{1..2}. \<forall>hist.
      lists_page (server (demo_world False []) hist (zones_page ''tok'' API_BASE i)) [demo_zone] 2"
    by (simp add: lists_page_def demo_server demo_server_def zones_page_def make_request_def success_def)
  have rows: "\<forall>i\<in>{1..2::int}. \<forall>z\<in>set [demo_zone]. zone_row z = Inr ()"
    by (simp add: zone_row_def demo_zone_def py_or_def)
  have u: "[1..2::int] = [1, 2]" by (simp add: upto_rec1)
  have lo: "lower ''MAIL'' = ''mail''" by code_simp
  have names: "shown_name (\<lambda>v. []) (demo_record ''r1'' ''www.example.com'' ''1.2.3.4'')
                 = Inr ''www.example.com''"
    "shown_name (\<lambda>v. []) (demo_record ''r2'' ''mail.example.com'' ''1.2.3.5'')
                 = Inr ''mail.example.com''"
    "shown_name (\<lambda>v. []) (demo_record ''r3'' ''mail.example.com'' ''1.2.3.6'')
                 = Inr ''mail.example.com''"
    "shown_name (\<lambda>v. []) (demo_record ''r4'' ''ftp.example.com'' ''1.2.3.7'')
                 = Inr ''ftp.example.com''"
    by (simp add: shown_name_def demo_record_def, code_simp)+
  have sub: "\<not> sublist ''mail'' ''www.example.com''" "sublist ''mail'' ''mail.example.com''"
    "\<not> sublist ''mail'' ''ftp.example.com''"
    by code_simp+
  note list = resolution_single_query [THEN conjunct1, rule_format,
      OF conjI [OF z conjI [OF k3 conjI [OF demo_pages recs]]]]
  note find = resolution_single_query [THEN conjunct2, THEN conjunct1, rule_format, OF g]
  note zones = resolution_single_query [THEN conjunct2, THEN conjunct2, rule_format,
      OF conjI [OF k conjI [OF pages rows]]]
  show ?thesis
    using list [where str_of = "\<lambda>v. []" and name_substr = "Some ''MAIL''" and as_json = False]
      find [of "demo_world True [''r3'']" "''tok''" "JStr ''z1''" "''example.com''" API_BASE] zones
    by (simp add: demo_requests u upto3 lo names sub demo_page_def
        normalize_name_def endswith_def suffix_def)
qed

end
